theory Spec2Isabelle
  imports Complex_Main "HOL-Library.Multiset" "HOL-Library.Product_Lexorder"
    "HOL-Library.Char_ord" "HOL-Library.List_Lexorder"
begin

section \<open>Python strings\<close>

text \<open>
  A Python \<open>str\<close> is a sequence of Unicode code points, and \<open>len\<close>, slicing and the
  \<open>re\<close> module all work per code point.  A string is therefore a list of code points
  (natural numbers); \<open>u\<close> embeds an ASCII literal.
\<close>

type_synonym pystr = "nat list"

definition u :: "string \<Rightarrow> pystr" where
  "u s = map of_char s"

definition underscore :: nat where
  "underscore = 0x5F"

section \<open>chart\_downloader.py: \<open>_sanitize_filename\<close>\<close>

text \<open>
  The character class \<open>[<>:"/\\|?*]\<close> of the first substitution: the nine code points
  \<open><\<close> \<open>>\<close> \<open>:\<close> \<open>"\<close> \<open>/\<close> \<open>\\<close> \<open>|\<close> \<open>?\<close> \<open>*\<close>.
\<close>

definition invalid_chars :: "nat list" where
  "invalid_chars = [0x3C, 0x3E, 0x3A, 0x22, 0x2F, 0x5C, 0x7C, 0x3F, 0x2A]"

text \<open>
  \<open>\s\<close> in a \<open>str\<close> pattern matches the Unicode whitespace characters, those for which
  \<open>str.isspace\<close> holds.
\<close>

definition is_space :: "nat \<Rightarrow> bool" where
  "is_space c \<longleftrightarrow>
     (0x09 \<le> c \<and> c \<le> 0x0D) \<or> (0x1C \<le> c \<and> c \<le> 0x20) \<or> c = 0x85 \<or> c = 0xA0 \<or>
     c = 0x1680 \<or> (0x2000 \<le> c \<and> c \<le> 0x200A) \<or> c = 0x2028 \<or> c = 0x2029 \<or>
     c = 0x202F \<or> c = 0x205F \<or> c = 0x3000"

text \<open>\<open>re.sub(r'[...]', '_', s)\<close>: every character of the class becomes one underscore.\<close>

definition sub_class :: "nat list \<Rightarrow> pystr \<Rightarrow> pystr" where
  "sub_class cls s = map (\<lambda>c. if c \<in> set cls then underscore else c) s"

text \<open>
  \<open>re.sub(r'P+', '_', s)\<close>: scanning from the left, every maximal run of characters
  satisfying \<open>P\<close> becomes one underscore.
\<close>

function sub_runs :: "(nat \<Rightarrow> bool) \<Rightarrow> pystr \<Rightarrow> pystr" where
  "sub_runs p [] = []"
| "sub_runs p (c # cs) =
     (if p c then underscore # sub_runs p (dropWhile p cs) else c # sub_runs p cs)"
  by pat_completeness auto
termination
  by (relation "measure (\<lambda>(p, s). length s)")
     (auto simp: le_imp_less_Suc length_dropWhile_le)

text \<open>\<open>s.strip('_')\<close>: leading and trailing underscores are removed.\<close>

definition strip_chars :: "(nat \<Rightarrow> bool) \<Rightarrow> pystr \<Rightarrow> pystr" where
  "strip_chars p s = rev (dropWhile p (rev (dropWhile p s)))"

definition sanitize_filename :: "pystr \<Rightarrow> pystr" where
  "sanitize_filename name =
     (let safe_name = sub_class invalid_chars name;
          safe_name = sub_runs is_space safe_name;
          safe_name = sub_runs (\<lambda>c. c = underscore) safe_name
      in strip_chars (\<lambda>c. c = underscore) (take 100 safe_name))"

section \<open>Calendar values\<close>

text \<open>
  A naive \<open>datetime\<close> object: the seven fields Python keeps.  The class guarantees
  \<open>1 \<le> month \<le> 12\<close>, \<open>1 \<le> day \<le> days_in_month\<close>, and the usual ranges of the time
  fields; \<open>valid_datetime\<close> below says so.
\<close>

record datetime =
  dt_year :: int
  dt_month :: int
  dt_day :: int
  dt_hour :: int
  dt_minute :: int
  dt_second :: int
  dt_microsecond :: int

text \<open>\<open>str(n)\<close> for an integer: its decimal digits, with a minus sign when negative.\<close>

function digits :: "nat \<Rightarrow> pystr" where
  "digits n = (if n < 10 then [48 + n] else digits (n div 10) @ [48 + n mod 10])"
  by pat_completeness auto
termination
  by (relation "measure id") auto

definition str_int :: "int \<Rightarrow> pystr" where
  "str_int i = (if i < 0 then 0x2D # digits (nat (- i)) else digits (nat i))"

section \<open>Time ranges: \<open>calculate_time_range\<close> and \<open>_convert_time_range\<close>\<close>

subsection \<open>The calendar arithmetic of \<open>datetime\<close>\<close>

definition is_leap :: "int \<Rightarrow> bool" where
  "is_leap y \<longleftrightarrow> y mod 4 = 0 \<and> (y mod 100 \<noteq> 0 \<or> y mod 400 = 0)"

definition days_in_month :: "int \<Rightarrow> int \<Rightarrow> int" where
  "days_in_month y m =
     (if m = 2 then (if is_leap y then 29 else 28)
      else if m = 4 \<or> m = 6 \<or> m = 9 \<or> m = 11 then 30 else 31)"

text \<open>The values a \<open>datetime\<close> object can hold (\<open>MINYEAR = 1\<close>, \<open>MAXYEAR = 9999\<close>).\<close>

definition valid_datetime :: "datetime \<Rightarrow> bool" where
  "valid_datetime d \<longleftrightarrow>
     1 \<le> dt_year d \<and> dt_year d \<le> 9999 \<and> 1 \<le> dt_month d \<and> dt_month d \<le> 12 \<and>
     1 \<le> dt_day d \<and> dt_day d \<le> days_in_month (dt_year d) (dt_month d) \<and>
     0 \<le> dt_hour d \<and> dt_hour d < 24 \<and> 0 \<le> dt_minute d \<and> dt_minute d < 60 \<and>
     0 \<le> dt_second d \<and> dt_second d < 60 \<and>
     0 \<le> dt_microsecond d \<and> dt_microsecond d < 1000000"

datatype error = ValueError pystr | OverflowError

text \<open>
  \<open>d - timedelta(days=1)\<close>: the same time of day on the preceding calendar day.  Python
  raises \<open>OverflowError\<close> when the result would fall before year 1.
\<close>

definition minus_one_day :: "datetime \<Rightarrow> error + datetime" where
  "minus_one_day d =
     (if 1 < dt_day d then Inr (d\<lparr>dt_day := dt_day d - 1\<rparr>)
      else if 1 < dt_month d then
        Inr (d\<lparr>dt_month := dt_month d - 1,
               dt_day := days_in_month (dt_year d) (dt_month d - 1)\<rparr>)
      else if 1 < dt_year d then
        Inr (d\<lparr>dt_year := dt_year d - 1, dt_month := 12, dt_day := 31\<rparr>)
      else Inl OverflowError)"

text \<open>\<open>d - timedelta(seconds=1)\<close>: one second earlier, borrowing from the minute, the
  hour and the day as needed.\<close>

definition minus_one_second :: "datetime \<Rightarrow> error + datetime" where
  "minus_one_second d =
     (if 0 < dt_second d then Inr (d\<lparr>dt_second := dt_second d - 1\<rparr>)
      else if 0 < dt_minute d then Inr (d\<lparr>dt_minute := dt_minute d - 1, dt_second := 59\<rparr>)
      else if 0 < dt_hour d then
        Inr (d\<lparr>dt_hour := dt_hour d - 1, dt_minute := 59, dt_second := 59\<rparr>)
      else
        (case minus_one_day d of
           Inl e \<Rightarrow> Inl e
         | Inr p \<Rightarrow> Inr (p\<lparr>dt_hour := 23, dt_minute := 59, dt_second := 59\<rparr>)))"

text \<open>
  The day count of a date as \<open>date.toordinal\<close> computes it (day 1 is 0001-01-01); the
  arithmetic above is checked against it below.
\<close>

definition days_before_year :: "int \<Rightarrow> int" where
  "days_before_year y = (y - 1) * 365 + (y - 1) div 4 - (y - 1) div 100 + (y - 1) div 400"

definition days_before_month :: "int \<Rightarrow> int \<Rightarrow> int" where
  "days_before_month y m =
     [0, 31, 59, 90, 120, 151, 181, 212, 243, 273, 304, 334] ! nat (m - 1)
     + (if 2 < m \<and> is_leap y then 1 else 0)"

definition toordinal :: "datetime \<Rightarrow> int" where
  "toordinal d = days_before_year (dt_year d) + days_before_month (dt_year d) (dt_month d)
                 + dt_day d"

subsection \<open>chart\_downloader.py: \<open>calculate_time_range\<close>\<close>

definition calculate_time_range :: "pystr \<Rightarrow> error + pystr \<times> pystr" where
  "calculate_time_range period_type =
     (if period_type = u ''last_30_days'' then Inr (u ''now-30d'', u ''now'')
      else if period_type = u ''previous_month'' then Inr (u ''now-1M/M'', u ''now-1M/M'')
      else if period_type = u ''current_month'' then Inr (u ''now/M'', u ''now'')
      else Inl (ValueError (u ''Tipo de per'' @ [0xED] @ u ''odo desconocido: ''
                            @ period_type)))"

subsection \<open>trend\_analyzer.py: \<open>_convert_time_range\<close>\<close>

text \<open>
  What the conversion reads from outside: the clock (\<open>datetime.now()\<close>, a naive local
  time), \<open>int(d.timestamp())\<close> for a naive \<open>datetime\<close>, which goes through the
  platform's local time zone, and Python's \<open>int(t)\<close> on a string (\<open>None\<close> when it raises
  \<open>ValueError\<close>).
\<close>

record clock_env =
  now :: datetime
  int_timestamp :: "datetime \<Rightarrow> int"
  py_int :: "pystr \<Rightarrow> int option"

definition first_of_month :: "datetime \<Rightarrow> datetime" where
  \<comment> \<open>\<open>d.replace(day=1, hour=0, minute=0, second=0, microsecond=0)\<close>\<close>
  "first_of_month d =
     d\<lparr>dt_day := 1, dt_hour := 0, dt_minute := 0, dt_second := 0, dt_microsecond := 0\<rparr>"

definition parse_time :: "clock_env \<Rightarrow> pystr \<Rightarrow> bool \<Rightarrow> error + int" where
  "parse_time e t is_to =
     (let now_ts = int_timestamp e (now e)
      in if t = u ''now'' then Inr now_ts
         else if t = u ''now-30d'' then Inr (now_ts - 30 * 24 * 3600)
         else if t = u ''now-1M/M'' then
           (let first_of_current = first_of_month (now e)
            in if is_to then
                 (case minus_one_second first_of_current of
                    Inl err \<Rightarrow> Inl err
                  | Inr last_of_prev \<Rightarrow> Inr (int_timestamp e last_of_prev))
               else
                 (case minus_one_day first_of_current of
                    Inl err \<Rightarrow> Inl err
                  | Inr prev_month \<Rightarrow> Inr (int_timestamp e (first_of_month prev_month))))
         else if t = u ''now/M'' then Inr (int_timestamp e (first_of_month (now e)))
         else (case py_int e t of
                 None \<Rightarrow> Inl (ValueError t)
               | Some n \<Rightarrow> Inr n))"

definition convert_time_range :: "clock_env \<Rightarrow> pystr \<Rightarrow> pystr \<Rightarrow> error + int \<times> int" where
  "convert_time_range e time_from time_to =
     (case parse_time e time_from False of
        Inl err \<Rightarrow> Inl err
      | Inr from_ts \<Rightarrow>
          (case parse_time e time_to True of
             Inl err \<Rightarrow> Inl err
           | Inr to_ts \<Rightarrow> Inr (from_ts, to_ts)))"

text \<open>
  Resolving a period as the download run does: the period name goes through
  \<open>calculate_time_range\<close>, the two expressions through \<open>_convert_time_range\<close>.
\<close>

definition resolve_period :: "clock_env \<Rightarrow> pystr \<Rightarrow> error + int \<times> int" where
  "resolve_period e period_type =
     (case calculate_time_range period_type of
        Inl err \<Rightarrow> Inl err
      | Inr (time_from, time_to) \<Rightarrow> convert_time_range e time_from time_to)"

subsection \<open>The month before a given one\<close>

definition prev_month_of :: "datetime \<Rightarrow> int \<times> int" where
  "prev_month_of d =
     (if dt_month d = 1 then (dt_year d - 1, 12) else (dt_year d, dt_month d - 1))"

definition first_instant :: "int \<times> int \<Rightarrow> datetime" where
  "first_instant ym =
     \<lparr> dt_year = fst ym, dt_month = snd ym, dt_day = 1, dt_hour = 0, dt_minute = 0,
       dt_second = 0, dt_microsecond = 0 \<rparr>"

definition last_instant :: "int \<times> int \<Rightarrow> datetime" where
  "last_instant ym =
     \<lparr> dt_year = fst ym, dt_month = snd ym, dt_day = days_in_month (fst ym) (snd ym),
       dt_hour = 23, dt_minute = 59, dt_second = 59, dt_microsecond = 0 \<rparr>"

text \<open>
  An example clock: 2024-03-31 10:15:30.25, with local time taken to be UTC.
\<close>

definition example_clock :: clock_env where
  "example_clock =
     \<lparr> now = \<lparr> dt_year = 2024, dt_month = 3, dt_day = 31, dt_hour = 10, dt_minute = 15,
                dt_second = 30, dt_microsecond = 250000 \<rparr>,
       int_timestamp = (\<lambda>d. (toordinal d - 719163) * 86400 + dt_hour d * 3600
                             + dt_minute d * 60 + dt_second d),
       py_int = (\<lambda>s. None) \<rparr>"

section \<open>Double-precision arithmetic\<close>

text \<open>
  NumPy and pandas compute in IEEE 754 binary64.  A double is modelled as the real number
  it denotes and NaN as \<open>None\<close>; every arithmetic operation yields the exact result
  rounded to the nearest double, ties to the even significand.  \<open>fl\<close> is that rounding
  for the normal range (53 significant bits; overflow and subnormal numbers, far from
  any metric value, are not modelled).
\<close>

definition pow2 :: "int \<Rightarrow> real" where
  "pow2 e = (if 0 \<le> e then 2 ^ nat e else 1 / 2 ^ nat (- e))"

text \<open>\<open>np.rint\<close>: the nearest integer, halves to the even neighbour.\<close>

definition rint :: "real \<Rightarrow> int" where
  "rint x =
     (let f = \<lfloor>x\<rfloor>; d = x - of_int f
      in if d < 1 / 2 then f else if 1 / 2 < d then f + 1 else if even f then f else f + 1)"

text \<open>The binary exponent of a non-zero number: \<open>2 ^ e \<le> |x| < 2 ^ (e + 1)\<close>.\<close>

definition expo :: "real \<Rightarrow> int" where
  "expo x = \<lfloor>log 2 \<bar>x\<bar>\<rfloor>"

definition fl :: "real \<Rightarrow> real" where
  "fl x =
     (if x = 0 then 0
      else of_int (rint (x / pow2 (expo x - 52))) * pow2 (expo x - 52))"

text \<open>
  \<open>round(x, 2)\<close> on a \<open>numpy.float64\<close>: NumPy multiplies by 100, rounds to the nearest
  integer and divides by 100, each step in double arithmetic.  NaN stays NaN.
\<close>

definition round_np :: "real \<Rightarrow> real" where
  "round_np x = fl (of_int (rint (fl (x * 100))) / 100)"

definition round2 :: "real option \<Rightarrow> real option" where
  "round2 v = map_option round_np v"

text \<open>
  Adding the values of an array one after the other in array order, starting from zero:
  what NumPy's sum does for fewer than eight values.
\<close>

definition seq_sum :: "real list \<Rightarrow> real" where
  "seq_sum xs = foldl (\<lambda>s x. fl (s + x)) 0 xs"

section \<open>trend\_analyzer.py: data\<close>

text \<open>
  One row of the trend series as \<open>calculate_statistics\<close> sees it after
  \<open>pd.to_numeric(..., errors='coerce')\<close>: \<open>clock\<close> is the integer epoch second the
  monitoring API returns, and each value field is a number or NaN, \<open>None\<close> standing for
  NaN (a field that did not parse).  A number is the real value of the double the field
  parses to.
\<close>

record trend =
  clock :: int
  value_min :: "real option"
  value_avg :: "real option"
  value_max :: "real option"

text \<open>
  The populated dictionary \<open>calculate_statistics\<close> returns, one field per key.  A
  numeric field is \<open>None\<close> when pandas yields NaN.
\<close>

record statistics =
  total_data_points :: nat
  avg_monthly :: "real option"
  max_absolute :: "real option"
  min_absolute :: "real option"
  p95 :: "real option"
  p99 :: "real option"
  std_deviation :: "real option"
  peak_hours :: "pystr list"
  peak_days :: "pystr list"
  period_start :: pystr
  period_end :: pystr

section \<open>trend\_analyzer.py: \<open>calculate_statistics\<close>\<close>

subsection \<open>The pandas operations used\<close>

text \<open>
  The reductions of NumPy and pandas over doubles whose order of operations is the
  library's own are taken as given:
  \<^item> \<open>sum_f\<close> is \<open>ndarray.sum\<close> over the values in array order;
  \<^item> \<open>group_mean_f\<close> is the mean the grouped kernel of pandas computes from the
    values of one group, in row order;
  \<^item> \<open>quantile_f q\<close> is the linear interpolation of rank \<open>q\<close> on the values sorted
    ascending;
  \<^item> \<open>std_f\<close> is the sample standard deviation (one degree of freedom removed) of a
    column, NaN skipped.

  Everything around them (which column is read, the skipping of NaN, the grouping, the
  ranking, the rounding) is modelled below.
\<close>

record numeric_lib =
  sum_f :: "real list \<Rightarrow> real"
  group_mean_f :: "real list \<Rightarrow> real"
  quantile_f :: "real \<Rightarrow> real list \<Rightarrow> real"
  std_f :: "real option list \<Rightarrow> real"

text \<open>The values of a column that are not NaN, in column order.\<close>

definition non_nan :: "real option list \<Rightarrow> real list" where
  "non_nan col = List.map_filter (\<lambda>v. v) col"

text \<open>The column with every NaN replaced by zero.\<close>

definition zero_filled :: "real option list \<Rightarrow> real list" where
  "zero_filled col = map (\<lambda>v. case v of None \<Rightarrow> 0 | Some x \<Rightarrow> x) col"

text \<open>
  \<open>Series.mean()\<close>: pandas sums the column with NaN replaced by zero and divides by the
  number of values that are not NaN; the result is NaN when there is none.
\<close>

definition series_mean :: "numeric_lib \<Rightarrow> real option list \<Rightarrow> real option" where
  "series_mean L col =
     (let xs = non_nan col
      in if xs = [] then None
         else Some (fl (sum_f L (zero_filled col) / real (length xs))))"

text \<open>
  \<open>Series.max()\<close> and \<open>Series.min()\<close>, skipping NaN in the same way.  The largest and
  the smallest of given doubles need no rounding.
\<close>

definition series_max :: "real option list \<Rightarrow> real option" where
  "series_max col =
     (let xs = non_nan col in if xs = [] then None else Some (Max (set xs)))"

definition series_min :: "real option list \<Rightarrow> real option" where
  "series_min col =
     (let xs = non_nan col in if xs = [] then None else Some (Min (set xs)))"

text \<open>
  \<open>Series.quantile(q)\<close> with the default linear interpolation, over the sorted values
  that are not NaN; NaN when there is none.
\<close>

definition series_quantile :: "numeric_lib \<Rightarrow> real \<Rightarrow> real option list \<Rightarrow> real option" where
  "series_quantile L q col =
     (let xs = sort (non_nan col)
      in if xs = [] then None else Some (quantile_f L q xs))"

text \<open>
  \<open>Series.std()\<close> over the values that are not NaN; NaN when fewer than two remain.
\<close>

definition series_std :: "numeric_lib \<Rightarrow> real option list \<Rightarrow> real option" where
  "series_std L col =
     (let xs = non_nan col
      in if length xs \<le> 1 then None else Some (std_f L col))"

text \<open>The mean of one group of \<open>groupby(...).mean()\<close>: NaN when every value is NaN.\<close>

definition group_mean :: "numeric_lib \<Rightarrow> real option list \<Rightarrow> real option" where
  "group_mean L col =
     (let xs = non_nan col in if xs = [] then None else Some (group_mean_f L xs))"

text \<open>
  \<open>pd.to_datetime(clock, unit='s')\<close> reads the clock as seconds since 1970-01-01 00:00
  without a time zone.  \<open>dt.hour\<close> is the hour of the day; \<open>dt.day_name()\<close> the English
  weekday name, 1970-01-01 having been a Thursday.
\<close>

definition hour_of :: "trend \<Rightarrow> int" where
  "hour_of r = (clock r div 3600) mod 24"

definition weekday_of :: "trend \<Rightarrow> nat" where
  "weekday_of r = nat ((clock r div 86400 + 3) mod 7)"

definition day_names :: "pystr list" where
  "day_names = [u ''Monday'', u ''Tuesday'', u ''Wednesday'', u ''Thursday'', u ''Friday'',
                u ''Saturday'', u ''Sunday'']"

definition day_name_of :: "trend \<Rightarrow> pystr" where
  "day_name_of r = day_names ! weekday_of r"

text \<open>
  \<open>df.groupby(key)['value_avg'].mean()\<close>: one row per distinct key, the keys in ascending
  order (numbers by value, strings by code point), each with the mean of \<open>value_avg\<close>
  over the rows of that key.
\<close>

definition groupby_mean ::
  "numeric_lib \<Rightarrow> (trend \<Rightarrow> 'k::linorder) \<Rightarrow> trend list \<Rightarrow> ('k \<times> real option) list" where
  "groupby_mean L key df =
     map (\<lambda>k. (k, group_mean L (map value_avg (filter (\<lambda>r. key r = k) df))))
       (sort (remdups (map key df)))"

text \<open>
  \<open>Series.nlargest(n)\<close> with the default \<open>keep='first'\<close>, as pandas documents it: the
  rows that are not NaN in descending order of value, rows of equal value in their order
  of appearance in the series, followed by the NaN rows in series order; the first \<open>n\<close>
  of these.  (\<open>sort_key\<close> is a stable sort.)
\<close>

definition nlargest :: "nat \<Rightarrow> ('k \<times> real option) list \<Rightarrow> ('k \<times> real option) list" where
  "nlargest n s =
     (let dropped = filter (\<lambda>(k, v). v \<noteq> None) s;
          nan_index = filter (\<lambda>(k, v). v = None) s
      in take n (sort_key (\<lambda>(k, v). - the v) dropped @ nan_index))"

text \<open>
  The calendar date of a day number (days since 1970-01-01) in the proleptic Gregorian
  calendar, and \<open>strftime('%Y-%m-%d')\<close> of it.
\<close>

definition civil_from_days :: "int \<Rightarrow> int \<times> int \<times> int" where
  "civil_from_days z0 =
     (let z = z0 + 719468;
          era = z div 146097;
          doe = z - era * 146097;
          yoe = (doe - doe div 1460 + doe div 36524 - doe div 146096) div 365;
          y = yoe + era * 400;
          doy = doe - (365 * yoe + yoe div 4 - yoe div 100);
          mp = (5 * doy + 2) div 153;
          d = doy - (153 * mp + 2) div 5 + 1;
          m = (if mp < 10 then mp + 3 else mp - 9)
      in (if m \<le> 2 then y + 1 else y, m, d))"

definition zfill :: "nat \<Rightarrow> pystr \<Rightarrow> pystr" where
  "zfill n s = replicate (n - length s) 0x30 @ s"

definition strftime_ymd :: "int \<Rightarrow> pystr" where
  "strftime_ymd clk =
     (case civil_from_days (clk div 86400) of
        (y, m, d) \<Rightarrow> zfill 4 (str_int y) @ u ''-'' @ zfill 2 (str_int m) @ u ''-''
                     @ zfill 2 (str_int d))"

text \<open>The format \<open>f"{h:02d}:00"\<close> of a peak hour.\<close>

definition hour_label :: "int \<Rightarrow> pystr" where
  "hour_label h = zfill 2 (str_int h) @ u '':00''"

subsection \<open>The function\<close>

text \<open>
  The result is \<open>None\<close> for the empty dictionary \<open>{}\<close> and \<open>Some\<close> of the populated
  dictionary otherwise.
\<close>

definition calculate_statistics :: "numeric_lib \<Rightarrow> trend list \<Rightarrow> statistics option" where
  "calculate_statistics L trends =
     (if trends = [] then None
      else
        let df = trends;
            hourly_avg = groupby_mean L hour_of df;
            peak_hours = map fst (nlargest 3 hourly_avg);
            daily_avg = groupby_mean L day_name_of df;
            peak_days = map fst (nlargest 3 daily_avg)
        in Some
             \<lparr> total_data_points = length df,
               avg_monthly = round2 (series_mean L (map value_avg df)),
               max_absolute = round2 (series_max (map value_max df)),
               min_absolute = round2 (series_min (map value_min df)),
               p95 = round2 (series_quantile L (fl (95 / 100)) (map value_avg df)),
               p99 = round2 (series_quantile L (fl (99 / 100)) (map value_avg df)),
               std_deviation = round2 (series_std L (map value_avg df)),
               peak_hours = map hour_label peak_hours,
               peak_days = peak_days,
               period_start = strftime_ymd (Min (set (map clock df))),
               period_end = strftime_ymd (Max (set (map clock df))) \<rparr>)"

subsection \<open>What the peaks are specified to be\<close>

text \<open>
  The rank of a bucket for "mean descending, ties by ascending key": buckets with a mean
  come first, a larger mean before a smaller one, equal means in ascending order of
  \<open>key_rank\<close> of the key; buckets whose mean is NaN come after them, in ascending order
  of \<open>key_rank\<close>.  Triples are compared lexicographically.
\<close>

definition bucket_rank :: "('k \<Rightarrow> 'r::linorder) \<Rightarrow> 'k \<times> real option \<Rightarrow> nat \<times> real \<times> 'r" where
  "bucket_rank key_rank b =
     (case snd b of
        Some v \<Rightarrow> (0, - v, key_rank (fst b))
      | None \<Rightarrow> (1, 0, key_rank (fst b)))"

definition top_buckets :: "('k \<Rightarrow> 'r::linorder) \<Rightarrow> nat \<Rightarrow> ('k \<times> real option) list \<Rightarrow> 'k list" where
  "top_buckets key_rank n buckets = map fst (take n (sort_key (bucket_rank key_rank) buckets))"

text \<open>The index of a weekday name counted from Monday = 0.\<close>

fun index_of :: "'a list \<Rightarrow> 'a \<Rightarrow> nat" where
  "index_of [] x = 0"
| "index_of (y # ys) x = (if x = y then 0 else Suc (index_of ys x))"

definition weekday_index :: "pystr \<Rightarrow> nat" where
  "weekday_index name = index_of day_names name"

text \<open>
  A value with two decimal places, as far as a double can have them: the double nearest
  to some hundredth (NaN counts as such).
\<close>

definition two_decimals :: "real option \<Rightarrow> bool" where
  "two_decimals v = (case v of None \<Rightarrow> True | Some x \<Rightarrow> (\<exists>k::int. x = fl (of_int k / 100)))"

subsection \<open>A library instance for the examples\<close>

text \<open>
  Every step is one operation in double arithmetic.  The sum adds in array order, which
  is what NumPy does for fewer than eight values, and the group mean divides such a sum;
  the quantile interpolates between the two ranks next to \<open>q * (n - 1)\<close>; the deviation
  is computed in two passes over the values that are not NaN, the squared distances from
  the mean being summed and divided by \<open>n - 1\<close>.  The instance is evaluated only on the
  short example series below, where a group holds a single point or whole numbers, whose
  sums are exact in whatever order they are taken.
\<close>

definition seq_mean :: "real list \<Rightarrow> real" where
  "seq_mean xs = fl (seq_sum xs / real (length xs))"

definition seq_quantile :: "real \<Rightarrow> real list \<Rightarrow> real" where
  "seq_quantile q xs =
     (let n = length xs;
          pos = fl (q * real (n - 1));
          lo = nat \<lfloor>pos\<rfloor>;
          hi = min (lo + 1) (n - 1);
          g = fl (pos - real lo);
          d = fl (xs ! hi - xs ! lo)
      in if 1 / 2 \<le> g then fl (xs ! hi - fl (d * fl (1 - g)))
         else fl (xs ! lo + fl (d * g)))"

definition seq_std :: "real list \<Rightarrow> real" where
  "seq_std xs =
     (let n = length xs;
          avg = fl (seq_sum xs / real n);
          sqr = map (\<lambda>x. fl ((fl (avg - x))\<^sup>2)) xs
      in fl (sqrt (fl (seq_sum sqr / real (n - 1)))))"

definition example_lib :: numeric_lib where
  "example_lib =
     \<lparr> sum_f = seq_sum, group_mean_f = seq_mean, quantile_f = seq_quantile,
       std_f = (\<lambda>col. seq_std (non_nan col)) \<rparr>"

subsection \<open>Example series\<close>

text \<open>Three hourly points on 1970-01-01 (a Thursday), at 00:00, 01:00 and 02:00.\<close>

definition example_hours :: "trend list" where
  "example_hours =
     [\<lparr> clock = 0, value_min = Some 5, value_avg = Some 10, value_max = Some 15 \<rparr>,
      \<lparr> clock = 3600, value_min = Some 15, value_avg = Some 20, value_max = Some 25 \<rparr>,
      \<lparr> clock = 7200, value_min = Some 25, value_avg = Some 30, value_max = Some 35 \<rparr>]"

text \<open>Three points whose mean \<open>5 / 3\<close> has no finite decimal expansion.\<close>

definition example_thirds :: "trend list" where
  "example_thirds =
     [\<lparr> clock = 0, value_min = Some 1, value_avg = Some 1, value_max = Some 1 \<rparr>,
      \<lparr> clock = 3600, value_min = Some 2, value_avg = Some 2, value_max = Some 2 \<rparr>,
      \<lparr> clock = 7200, value_min = Some 2, value_avg = Some 2, value_max = Some 2 \<rparr>]"

text \<open>
  Four points on four weekdays: Monday 1970-01-05 and Friday 1970-01-02 with the same
  value, Tuesday 1970-01-06 and Wednesday 1970-01-07 below them.
\<close>

definition example_tie :: "trend list" where
  "example_tie =
     [\<lparr> clock = 345600, value_min = Some 5, value_avg = Some 5, value_max = Some 5 \<rparr>,
      \<lparr> clock = 86400, value_min = Some 5, value_avg = Some 5, value_max = Some 5 \<rparr>,
      \<lparr> clock = 432000, value_min = Some 2, value_avg = Some 2, value_max = Some 2 \<rparr>,
      \<lparr> clock = 518400, value_min = Some 1, value_avg = Some 1, value_max = Some 1 \<rparr>]"



section \<open>pdf\_generator.py: the report aggregator\<close>

subsection \<open>State\<close>

text \<open>
  A dictionary with string keys is an association list; \<open>d.get(k, default)\<close> is
  \<open>dict_get\<close>.  An empty dictionary is falsy.
\<close>

type_synonym 'v dict = "(pystr \<times> 'v) list"

definition dict_get :: "'v dict \<Rightarrow> pystr \<Rightarrow> 'v \<Rightarrow> 'v" where
  "dict_get d k dflt = (case map_of d k of Some v \<Rightarrow> v | None \<Rightarrow> dflt)"

text \<open>
  One entry of \<open>items_data\<close>.  \<open>stats\<close> is the dictionary of \<open>calculate_statistics\<close>
  (\<open>None\<close> for the empty dictionary), \<open>conclusion\<close> an optional string.
\<close>

record item_data =
  host :: pystr
  item :: pystr
  trends :: "trend list"
  stats :: "statistics option"
  conclusion :: "pystr option"

text \<open>The attributes of \<open>PDFReportGenerator\<close> (the fixed style sheet is left out).\<close>

record pdf_report_generator =
  output_dir :: pystr
  items_data :: "item_data list"
  report_config :: "pystr dict"
  report_defaults :: "pystr dict"
  host_configs :: "(pystr dict) dict"
  current_host :: pystr

definition init_generator :: "pystr \<Rightarrow> pdf_report_generator" where
  "init_generator out_dir =
     \<lparr> output_dir = out_dir,
       items_data = [],
       report_config = [],
       report_defaults =
         [(u ''incidentes'', u ''No se presentan incidentes de servicio.''),
          (u ''riesgos'', u ''No se registran riesgos del servicio durante el periodo.''),
          (u ''alertas'',
             u ''No se evidencian alertas que afecten la continuidad operativa.''),
          (u ''dim_rendimiento'', u ''Sin observaciones''),
          (u ''dim_contingencia'', u ''Sin observaciones''),
          (u ''dim_soporte'', u ''Sin observaciones''),
          (u ''dim_actualizaciones'', u ''Sin observaciones''),
          (u ''dim_respaldos'', u ''Sin observaciones'')],
       host_configs = [],
       current_host = [] \<rparr>"

definition set_report_config ::
  "pdf_report_generator \<Rightarrow> pystr dict \<Rightarrow> pystr dict option \<Rightarrow> pdf_report_generator" where
  "set_report_config g config defaults =
     (let g = g\<lparr>report_config := config\<rparr>
      in case defaults of
           None \<Rightarrow> g
         | Some d \<Rightarrow> if d \<noteq> [] then g\<lparr>report_defaults := d\<rparr> else g)"

definition set_host_configs ::
  "pdf_report_generator \<Rightarrow> (pystr dict) dict \<Rightarrow> pdf_report_generator" where
  "set_host_configs g hc = g\<lparr>host_configs := hc\<rparr>"

text \<open>\<open>s.strip()\<close>: leading and trailing whitespace is removed.\<close>

definition strip :: "pystr \<Rightarrow> pystr" where
  "strip s = strip_chars is_space s"

definition get_config_value :: "pdf_report_generator \<Rightarrow> pystr \<Rightarrow> pystr" where
  "get_config_value g key =
     (let val = strip (dict_get (report_config g) key [])
      in if val = [] then dict_get (report_defaults g) key [] else val)"

definition get_host_config_value :: "pdf_report_generator \<Rightarrow> pystr \<Rightarrow> pystr" where
  "get_host_config_value g key =
     (let host_config = dict_get (host_configs g) (current_host g) [];
          val = strip (dict_get host_config key [])
      in if val = [] then dict_get (report_defaults g) key [] else val)"

definition add_item_data ::
  "pdf_report_generator \<Rightarrow> pystr \<Rightarrow> pystr \<Rightarrow> trend list \<Rightarrow> statistics option \<Rightarrow>
     pystr option \<Rightarrow> pdf_report_generator" where
  "add_item_data g host_name item_name trs sts concl =
     g\<lparr>items_data := items_data g @
        [\<lparr> host = host_name, item = item_name, trends = trs, stats = sts,
            conclusion = concl \<rparr>]\<rparr>"

definition clear_data :: "pdf_report_generator \<Rightarrow> pdf_report_generator" where
  "clear_data g = g\<lparr>items_data := []\<rparr>"

subsection \<open>Flowables\<close>

text \<open>
  The objects handed to the layout library.  A table is its grid of cells, a cell being a
  string or a flowable; column widths, fonts and colours are layout and are left out.
  An \<open>Image\<close> is the chart \<open>_create_chart\<close> draws, named by what it was drawn from.
\<close>

datatype style = HostHeader | ItemTitle | Analysis | CardLabel | CardValue

datatype flowable =
    Paragraph pystr style
  | Spacer nat nat
  | PageBreak
  | Table "cell list list"
  | KeepTogether "flowable list"
  | Image "trend list" pystr
and cell = Str pystr | Flow flowable

text \<open>
  What the generator takes from outside: the clock, the platform's path join, string
  methods of the runtime, the chart renderer (which may raise) and the document builder
  (which may raise).
\<close>

record env =
  now_stamp :: pystr           \<comment> \<open>\<open>datetime.now().strftime('%Y%m%d_%H%M%S')\<close> on entry\<close>
  now_at :: "nat \<Rightarrow> datetime"   \<comment> \<open>\<open>datetime.now()\<close> read in the iteration of host number \<open>i\<close>\<close>
  path_join :: "pystr \<Rightarrow> pystr \<Rightarrow> pystr"
  upper :: "pystr \<Rightarrow> pystr"
  str_value :: "real option \<Rightarrow> pystr"   \<comment> \<open>how an f-string prints a float\<close>
  chart_raises :: "trend list \<Rightarrow> pystr \<Rightarrow> bool"
  build_raises :: "pystr \<Rightarrow> flowable list \<Rightarrow> bool"

definition MESES_ESP :: "pystr list" where
  "MESES_ESP = [u ''enero'', u ''febrero'', u ''marzo'', u ''abril'', u ''mayo'', u ''junio'',
                u ''julio'', u ''agosto'', u ''septiembre'', u ''octubre'', u ''noviembre'',
                u ''diciembre'']"

definition create_chart :: "env \<Rightarrow> trend list \<Rightarrow> pystr \<Rightarrow> flowable option" where
  "create_chart e trs item_name =
     (if chart_raises e trs item_name then None else Some (Image trs item_name))"

definition create_data_cards :: "env \<Rightarrow> statistics \<Rightarrow> flowable" where
  "create_data_cards e st =
     (let cards =
            [(u ''PROMEDIO'', str_value e (avg_monthly st) @ u ''%''),
             (u ''M'' @ [0xCD] @ u ''NIMO'', str_value e (min_absolute st) @ u ''%''),
             (u ''M'' @ [0xC1] @ u ''XIMO'', str_value e (max_absolute st) @ u ''%''),
             (u ''P95'', str_value e (p95 st) @ u ''%'')];
          card_row =
            map (\<lambda>(label, val).
                   Flow (Table [ [Flow (Paragraph val CardValue)],
                                [Flow (Paragraph label CardLabel)] ])) cards
      in Table [card_row])"

definition create_item_title :: "env \<Rightarrow> pystr \<Rightarrow> flowable" where
  "create_item_title e item_name =
     (let bar_cell = Table [ [Str [] ] ];
          title = Paragraph (upper e item_name) ItemTitle
      in Table [ [Flow bar_cell, Flow title] ])"

definition create_divider :: flowable where
  "create_divider = Table [ [Str [] ] ]"

definition create_operative_block :: "pdf_report_generator \<Rightarrow> flowable list" where
  "create_operative_block g =
     (let intro = u ''A continuaci'' @ [0xF3] @ u ''n, se presentan los principales t'' @ [0xF3]
                  @ u ''picos operativos del servicio, ''
                  @ u ''incluyendo incidentes, riesgos y alertas relevantes del periodo.'';
          incidentes = get_host_config_value g (u ''incidentes'');
          riesgos = get_host_config_value g (u ''riesgos'');
          alertas = get_host_config_value g (u ''alertas'')
      in [Paragraph intro Analysis, Spacer 1 10,
          Paragraph (u ''<b>Incidentes del Servicio:</b> '' @ incidentes) Analysis, Spacer 1 5,
          Paragraph (u ''<b>Riesgos del Servicio:</b> '' @ riesgos) Analysis, Spacer 1 5,
          Paragraph (u ''<b>Incidentes de Alerta:</b> '' @ alertas) Analysis, Spacer 1 15])"

definition create_severity_glossary :: "flowable list" where
  "create_severity_glossary =
     [Paragraph (u ''<b>Glosario de Gravedad</b>'') ItemTitle, Spacer 1 10,
      Table [ [Str (u ''S'' @ [0xED] @ u ''mbolo''), Str (u ''Nivel''),
                Str (u ''Descripci'' @ [0xF3] @ u ''n'')],
             [Str (u ''G''), Str (u ''Grave''),
                Str (u ''Requiere atenci'' @ [0xF3] @ u ''n inmediata'')],
             [Str (u ''M''), Str (u ''Medio''), Str (u ''Requiere seguimiento'')],
             [Str (u ''B''), Str (u ''Bajo''), Str (u ''Informativo'')] ],
      Spacer 1 20]"

definition create_dimensions_table :: "pdf_report_generator \<Rightarrow> flowable list" where
  "create_dimensions_table g =
     [Paragraph (u ''<b>Tabla Resumen de Dimensiones</b>'') ItemTitle, Spacer 1 10,
      Table [ [Str (u ''Dimensi'' @ [0xF3] @ u ''n''), Str (u ''Estado'')],
             [Str (u ''Rendimiento''), Str (get_config_value g (u ''dim_rendimiento''))],
             [Str (u ''Contingencia''), Str (get_config_value g (u ''dim_contingencia''))],
             [Str (u ''Soporte''), Str (get_config_value g (u ''dim_soporte''))],
             [Str (u ''Actualizaciones''),
                Str (get_config_value g (u ''dim_actualizaciones''))],
             [Str (u ''Respaldos''), Str (get_config_value g (u ''dim_respaldos''))] ],
      Spacer 1 20]"

definition create_uptime_section :: "pdf_report_generator \<Rightarrow> flowable list" where
  "create_uptime_section g =
     (let uptime_fecha = strip (dict_get (report_config g) (u ''uptime_fecha'') []);
          uptime_servidor = strip (dict_get (report_config g) (u ''uptime_servidor'') []);
          uptime_bd = strip (dict_get (report_config g) (u ''uptime_bd'') [])
      in if \<not> (uptime_fecha \<noteq> [] \<or> uptime_servidor \<noteq> [] \<or> uptime_bd \<noteq> []) then []
         else
           [Paragraph (u ''<b>Informaci'' @ [0xF3] @ u ''n de Uptime</b>'') ItemTitle,
            Spacer 1 10,
            Table ([ [Str (u ''M'' @ [0xE9] @ u ''trica''), Str (u ''Valor'')] ]
                   @ (if uptime_fecha \<noteq> []
                      then [ [Str (u ''Fecha '' @ [0xDA] @ u ''ltimo Inicio''), Str uptime_fecha] ]
                      else [])
                   @ (if uptime_servidor \<noteq> []
                      then [ [Str (u ''Uptime Servidor''), Str uptime_servidor] ] else [])
                   @ (if uptime_bd \<noteq> [] then [ [Str (u ''Uptime BD''), Str uptime_bd] ] else [])),
            Spacer 1 20])"

subsection \<open>\<open>generate_report\<close>\<close>

text \<open>
  The dictionary \<open>hosts\<close> of the grouping loop, as an association list in insertion
  order (a Python dictionary iterates in insertion order).  One step of the loop:
  a host not yet present gets a new empty list at the end, then the entry is appended
  to its host's list.
\<close>

definition hosts_add ::
  "(pystr \<times> item_data list) list \<Rightarrow> item_data \<Rightarrow> (pystr \<times> item_data list) list" where
  "hosts_add hosts d =
     (let hosts = (if host d \<notin> set (map fst hosts) then hosts @ [(host d, [])] else hosts)
      in map (\<lambda>(h, ds). if h = host d then (h, ds @ [d]) else (h, ds)) hosts)"

definition group_by_host :: "item_data list \<Rightarrow> (pystr \<times> item_data list) list" where
  "group_by_host ds = foldl hosts_add [] ds"

text \<open>\<open>s.replace('\n', ' ')\<close>.\<close>

definition replace_newlines :: "pystr \<Rightarrow> pystr" where
  "replace_newlines s = map (\<lambda>c. if c = 0x0A then 0x20 else c) s"

text \<open>The body of the inner loop: what one item appends to the story.\<close>

definition item_flowables :: "env \<Rightarrow> item_data \<Rightarrow> flowable list" where
  "item_flowables e d =
     (let item_section = [create_item_title e (item d), Spacer 1 10];
          item_section =
            (if trends d \<noteq> [] then
               (case create_chart e (trends d) (item d) of
                  Some chart \<Rightarrow> item_section @ [chart, Spacer 1 10]
                | None \<Rightarrow> item_section)
             else item_section);
          item_section =
            (case stats d of
               Some st \<Rightarrow> item_section @ [create_data_cards e st, Spacer 1 15]
             | None \<Rightarrow> item_section)
      in (if conclusion d \<noteq> None \<and> conclusion d \<noteq> Some [] then
            [KeepTogether item_section,
             Paragraph (u ''<b>An'' @ [0xE1] @ u ''lisis:</b> ''
                        @ strip (replace_newlines (the (conclusion d)))) Analysis]
          else [KeepTogether item_section])
         @ [Spacer 1 25])"

text \<open>The body of the outer loop for host number \<open>host_idx\<close>.\<close>

definition host_flowables ::
  "env \<Rightarrow> pdf_report_generator \<Rightarrow> nat \<Rightarrow> pystr \<Rightarrow> item_data list \<Rightarrow> flowable list" where
  "host_flowables e g host_idx host_name ds =
     (let g = g\<lparr>current_host := host_name\<rparr>;
          now = now_at e host_idx;
          mes_esp = MESES_ESP ! nat (dt_month now - 1);
          date_info = u ''Reporte generado: '' @ str_int (dt_day now) @ u '' de '' @ mes_esp
                      @ u '' de '' @ str_int (dt_year now)
      in (if host_idx > 0 then [PageBreak] else [])
         @ [Paragraph host_name HostHeader, Spacer 1 10, create_divider, Spacer 1 20,
            Paragraph date_info Analysis, Spacer 1 15]
         @ create_operative_block g
         @ create_severity_glossary
         @ create_dimensions_table g
         @ create_uptime_section g
         @ [Paragraph (u ''<b>'' @ [0xCD] @ u ''tems de Monitoreo</b>'') ItemTitle, Spacer 1 15]
         @ concat (map (item_flowables e) ds))"

definition build_story ::
  "env \<Rightarrow> pdf_report_generator \<Rightarrow> (pystr \<times> item_data list) list \<Rightarrow> flowable list" where
  "build_story e g hosts =
     concat (map (\<lambda>(host_idx, (host_name, ds)). host_flowables e g host_idx host_name ds)
               (enumerate 0 hosts))"

text \<open>
  The result of \<open>generate_report\<close>: the returned path (empty on failure), the generator
  afterwards, and the files the call wrote.  A build that raises is recorded as writing
  nothing.
\<close>

record report_result =
  returned_path :: pystr
  generator_after :: pdf_report_generator
  files_written :: "pystr list"
  story_built :: "flowable list"

definition generate_report :: "env \<Rightarrow> pdf_report_generator \<Rightarrow> pystr \<Rightarrow> report_result" where
  "generate_report e g report_name =
     (if items_data g = [] then
        \<lparr> returned_path = [], generator_after = g, files_written = [], story_built = [] \<rparr>
      else
        let pdf_path = path_join e (output_dir g)
                         (report_name @ u ''_'' @ now_stamp e @ u ''.pdf'');
            hosts = group_by_host (items_data g);
            story = build_story e g hosts;
            g = g\<lparr>current_host := fst (last hosts)\<rparr>
        in if build_raises e pdf_path story then
             \<lparr> returned_path = [], generator_after = g, files_written = [],
               story_built = story \<rparr>
           else
             \<lparr> returned_path = pdf_path, generator_after = g, files_written = [pdf_path],
               story_built = story \<rparr>)"

subsection \<open>What the report is specified to look like\<close>

text \<open>The distinct values of a list, in the order of their first occurrence.\<close>

fun first_seen :: "'a list \<Rightarrow> 'a list" where
  "first_seen [] = []"
| "first_seen (x # xs) = x # filter (\<lambda>y. y \<noteq> x) (first_seen xs)"

text \<open>
  The specified grouping: one group per host name in first-seen order, each holding that
  host's entries in the order they were added.
\<close>

definition partition_by_host :: "item_data list \<Rightarrow> (pystr \<times> item_data list) list" where
  "partition_by_host ds =
     map (\<lambda>h. (h, filter (\<lambda>d. host d = h) ds)) (first_seen (map host ds))"

text \<open>
  The outline of a story: its page breaks, host headers and item titles, in story order.
  An item title is read off the block the inner loop keeps together, whose first member
  is the title table.
\<close>

datatype mark = Break | HostMark pystr | ItemMark pystr

definition title_text :: "flowable \<Rightarrow> pystr option" where
  "title_text f =
     (case f of
        Table rows \<Rightarrow>
          (case rows of
             [ [c1, Flow (Paragraph t ItemTitle)] ] \<Rightarrow> Some t
           | _ \<Rightarrow> None)
      | _ \<Rightarrow> None)"

definition marks_of :: "flowable \<Rightarrow> mark list" where
  "marks_of f =
     (case f of
        PageBreak \<Rightarrow> [Break]
      | Paragraph t HostHeader \<Rightarrow> [HostMark t]
      | KeepTogether (f1 # fs) \<Rightarrow> (case title_text f1 of Some t \<Rightarrow> [ItemMark t] | None \<Rightarrow> [])
      | _ \<Rightarrow> [])"

definition outline :: "flowable list \<Rightarrow> mark list" where
  "outline story = concat (map marks_of story)"

text \<open>
  The specified outline: the host sections in order, a page break before every section
  except the first, and within a section the host's items in the order added (an item
  title shows the item name in upper case).
\<close>

definition spec_outline :: "env \<Rightarrow> (pystr \<times> item_data list) list \<Rightarrow> mark list" where
  "spec_outline e groups =
     concat (map (\<lambda>(i, (h, ds)).
                    (if i = 0 then [] else [Break]) @ [HostMark h]
                    @ map (\<lambda>d. ItemMark (upper e (item d))) ds)
               (enumerate 0 groups))"

subsection \<open>Example report entries\<close>

definition example_env :: env where
  "example_env =
     \<lparr> now_stamp = u ''20240315_101500'',
       now_at = (\<lambda>i. \<lparr> dt_year = 2024, dt_month = 3, dt_day = 15, dt_hour = 10,
                         dt_minute = 15, dt_second = 0, dt_microsecond = 0 \<rparr>),
       path_join = (\<lambda>a b. a @ u ''/'' @ b),
       upper = (\<lambda>s. s),
       str_value = (\<lambda>v. u ''1.0''),
       chart_raises = (\<lambda>trs n. False),
       build_raises = (\<lambda>p story. False) \<rparr>"

definition example_entry :: "pystr \<Rightarrow> pystr \<Rightarrow> item_data" where
  "example_entry h i =
     \<lparr> host = h, item = i,
       trends = [\<lparr> clock = 0, value_min = Some 1, value_avg = Some 2, value_max = Some 3 \<rparr>],
       stats = None, conclusion = None \<rparr>"

definition example_entries :: "item_data list" where
  "example_entries =
     [example_entry (u ''db1'') (u ''CPU''), example_entry (u ''web1'') (u ''CPU''),
      example_entry (u ''db1'') (u ''RAM'')]"

section \<open>Properties of the filename sanitizer\<close>

lemma set_sub_runs: "set (sub_runs p s) \<subseteq> {c \<in> set s. \<not> p c} \<union> {underscore}"
proof (induction p s rule: sub_runs.induct)
  case (1 p)
  show ?case by simp
next
  case (2 p c cs)
  show ?case
  proof (cases "p c")
    case True
    have "set (dropWhile p cs) \<subseteq> set cs" by (meson set_dropWhileD subsetI)
    with True 2(1) show ?thesis by auto
  next
    case False
    with 2(2) show ?thesis by auto
  qed
qed

lemma set_dropWhile_subset: "set (dropWhile p xs) \<subseteq> set xs"
  by (meson set_dropWhileD subsetI)

lemma set_strip_chars: "set (strip_chars p s) \<subseteq> set s"
proof -
  have "set (strip_chars p s) = set (dropWhile p (rev (dropWhile p s)))"
    unfolding strip_chars_def by (rule set_rev)
  also have "\<dots> \<subseteq> set (rev (dropWhile p s))" by (rule set_dropWhile_subset)
  also have "\<dots> = set (dropWhile p s)" by (rule set_rev)
  also have "\<dots> \<subseteq> set s" by (rule set_dropWhile_subset)
  finally show ?thesis .
qed

lemma hd_strip_chars: "strip_chars p s \<noteq> [] \<Longrightarrow> \<not> p (hd (strip_chars p s))"
proof -
  assume ne: "strip_chars p s \<noteq> []"
  let ?d = "dropWhile p s"
  from ne have dne: "?d \<noteq> []"
    using set_dropWhile_subset [of p s] by (auto simp: strip_chars_def)
  then have hd_d: "\<not> p (hd ?d)" by (rule hd_dropWhile)
  obtain x xs where d: "?d = x # xs" using dne by (cases ?d) auto
  with hd_d have npx: "\<not> p x" by simp
  have "rev ?d = rev xs @ [x]" using d by simp
  then have "dropWhile p (rev ?d) = dropWhile p (rev xs) @ [x]"
    using npx by (simp add: dropWhile_append)
  then have "strip_chars p s = x # rev (dropWhile p (rev xs))"
    by (simp add: strip_chars_def)
  with npx show ?thesis by simp
qed

lemma last_strip_chars: "strip_chars p s \<noteq> [] \<Longrightarrow> \<not> p (last (strip_chars p s))"
proof -
  assume ne: "strip_chars p s \<noteq> []"
  let ?e = "dropWhile p (rev (dropWhile p s))"
  from ne have "?e \<noteq> []" by (simp add: strip_chars_def)
  then have "\<not> p (hd ?e)" by (rule hd_dropWhile)
  moreover have "last (strip_chars p s) = hd ?e"
    using \<open>?e \<noteq> []\<close> by (simp add: strip_chars_def last_rev)
  ultimately show ?thesis by simp
qed

lemma sub_class_clean: "c \<in> set (sub_class cls s) \<Longrightarrow> c \<in> set cls \<Longrightarrow> c = underscore"
  by (auto simp: sub_class_def split: if_splits)

lemma underscore_not_invalid: "underscore \<notin> set invalid_chars"
  by (simp add: underscore_def invalid_chars_def)

lemma underscore_not_space: "\<not> is_space underscore"
  by (simp add: underscore_def is_space_def)

text \<open>
  C10.  For every input string, the sanitizer returns a string of at most 100 characters
  that contains none of \<open>< > : " / \ | ? *\<close>, contains no whitespace character, and
  neither starts nor ends with an underscore.
\<close>

theorem sanitize_filename_safe:
  "length (sanitize_filename name) \<le> 100 \<and>
   (\<forall>c \<in> set (sanitize_filename name). c \<notin> set invalid_chars \<and> \<not> is_space c) \<and>
   (sanitize_filename name \<noteq> [] \<longrightarrow>
      hd (sanitize_filename name) \<noteq> underscore \<and> last (sanitize_filename name) \<noteq> underscore)"
proof -
  define s1 where "s1 = sub_class invalid_chars name"
  define s2 where "s2 = sub_runs is_space s1"
  define s3 where "s3 = sub_runs (\<lambda>c. c = underscore) s2"
  define r where "r = strip_chars (\<lambda>c. c = underscore) (take 100 s3)"
  have r: "sanitize_filename name = r"
    by (simp add: sanitize_filename_def r_def s3_def s2_def s1_def Let_def)
  have len: "length r \<le> 100"
  proof -
    have "length r = length (dropWhile (\<lambda>c. c = underscore)
                       (rev (dropWhile (\<lambda>c. c = underscore) (take 100 s3))))"
      by (simp add: r_def strip_chars_def)
    also have "\<dots> \<le> length (dropWhile (\<lambda>c. c = underscore) (take 100 s3))"
      using length_dropWhile_le [of "\<lambda>c. c = underscore"
              "rev (dropWhile (\<lambda>c. c = underscore) (take 100 s3))"] by simp
    also have "\<dots> \<le> length (take 100 s3)" by (rule length_dropWhile_le)
    also have "\<dots> \<le> 100" by simp
    finally show ?thesis .
  qed
  have s1_ok: "c \<notin> set invalid_chars" if "c \<in> set s1" for c
    using that sub_class_clean [of c invalid_chars name] underscore_not_invalid
    by (auto simp: s1_def)
  have s2_sub: "set s2 \<subseteq> {c \<in> set s1. \<not> is_space c} \<union> {underscore}"
    unfolding s2_def by (rule set_sub_runs)
  have s2_ok: "c \<notin> set invalid_chars \<and> \<not> is_space c" if "c \<in> set s2" for c
    using that s2_sub s1_ok underscore_not_invalid underscore_not_space by auto
  have s3_sub: "set s3 \<subseteq> {c \<in> set s2. c \<noteq> underscore} \<union> {underscore}"
    unfolding s3_def by (rule set_sub_runs)
  have s3_ok: "c \<notin> set invalid_chars \<and> \<not> is_space c" if "c \<in> set s3" for c
    using that s3_sub s2_ok underscore_not_invalid underscore_not_space by auto
  have "set r \<subseteq> set (take 100 s3)" unfolding r_def by (rule set_strip_chars)
  also have "\<dots> \<subseteq> set s3" by (rule set_take_subset)
  finally have r_ok: "\<forall>c \<in> set r. c \<notin> set invalid_chars \<and> \<not> is_space c"
    using s3_ok by auto
  have ends: "r \<noteq> [] \<longrightarrow> hd r \<noteq> underscore \<and> last r \<noteq> underscore"
    using hd_strip_chars [of "\<lambda>c. c = underscore" "take 100 s3"]
          last_strip_chars [of "\<lambda>c. c = underscore" "take 100 s3"]
    by (auto simp: r_def)
  from len r_ok ends show ?thesis unfolding r by blast
qed

theorem sanitize_filename_safe_witness:
  "sanitize_filename (u ''_CPU  load: /var?_'') = u ''CPU_load_var'' \<and>
   sanitize_filename (u ''_CPU  load: /var?_'') \<noteq> [] \<and>
   hd (sanitize_filename (u ''_CPU  load: /var?_'')) \<noteq> underscore \<and>
   last (sanitize_filename (u ''_CPU  load: /var?_'')) \<noteq> underscore \<and>
   length (sanitize_filename (u ''_CPU  load: /var?_'')) \<le> 100 \<and>
   0x43 \<in> set (sanitize_filename (u ''_CPU  load: /var?_'')) \<and>
   0x43 \<notin> set invalid_chars \<and> \<not> is_space 0x43"
proof -
  have val: "sanitize_filename (u ''_CPU  load: /var?_'') = u ''CPU_load_var''"
    by (simp add: sanitize_filename_def u_def sub_class_def invalid_chars_def
          underscore_def is_space_def strip_chars_def)
  then have ne: "sanitize_filename (u ''_CPU  load: /var?_'') \<noteq> []"
    by (simp add: u_def)
  from val have mem: "0x43 \<in> set (sanitize_filename (u ''_CPU  load: /var?_''))"
    by (simp add: u_def)
  from val ne mem sanitize_filename_safe [of "u ''_CPU  load: /var?_''"] show ?thesis
    by blast
qed

section \<open>Properties of the time-range resolution\<close>

subsection \<open>The calendar arithmetic agrees with the day count\<close>

lemma div_step:
  fixes y k :: int
  assumes k: "0 < k"
  shows "y div k = (y - 1) div k + (if y mod k = 0 then 1 else 0)"
proof (cases "y mod k = 0")
  case True
  have "k * (y div k) = y" using mult_div_mod_eq [of k y] True by simp
  then have "y - 1 = k * (y div k - 1) + (k - 1)" by (simp add: algebra_simps)
  then have "(y - 1) div k = y div k - 1"
    using k by (intro int_div_pos_eq [of _ _ _ "k - 1"]) simp_all
  with True show ?thesis by simp
next
  case False
  have r: "0 \<le> y mod k" "y mod k < k" using k by simp_all
  with False have r1: "0 \<le> y mod k - 1" by simp
  have "y - 1 = k * (y div k) + (y mod k - 1)" by simp
  then have "(y - 1) div k = y div k"
    using r r1 by (intro int_div_pos_eq [of _ _ _ "y mod k - 1"]) simp_all
  with False show ?thesis by simp
qed

lemma days_before_year_step:
  "days_before_year (y + 1) = days_before_year y + (if is_leap y then 366 else 365)"
proof -
  define q4 q100 q400 where "q4 = (y - 1) div 4" and "q100 = (y - 1) div 100"
    and "q400 = (y - 1) div 400"
  define p4 p100 p400 where "p4 \<longleftrightarrow> y mod 4 = 0" and "p100 \<longleftrightarrow> y mod 100 = 0"
    and "p400 \<longleftrightarrow> y mod 400 = 0"
  have a: "y div 4 = q4 + (if p4 then 1 else 0)"
    unfolding q4_def p4_def by (rule div_step) simp
  have b: "y div 100 = q100 + (if p100 then 1 else 0)"
    unfolding q100_def p100_def by (rule div_step) simp
  have c: "y div 400 = q400 + (if p400 then 1 else 0)"
    unfolding q400_def p400_def by (rule div_step) simp
  have d: "p400 \<Longrightarrow> p100"
    unfolding p400_def p100_def using dvd_trans [of 100 400 y] by (simp add: mod_eq_0_iff_dvd)
  have e: "p100 \<Longrightarrow> p4"
    unfolding p100_def p4_def using dvd_trans [of 4 100 y] by (simp add: mod_eq_0_iff_dvd)
  have l: "is_leap y = (p4 \<and> (\<not> p100 \<or> p400))"
    by (simp add: is_leap_def p4_def p100_def p400_def)
  have n: "days_before_year (y + 1) = y * 365 + y div 4 - y div 100 + y div 400"
    by (simp add: days_before_year_def)
  have o: "days_before_year y = (y - 1) * 365 + q4 - q100 + q400"
    by (simp add: days_before_year_def q4_def q100_def q400_def)
  show ?thesis
    unfolding n o l a b c using d e
    by (cases p4; cases p100; cases p400; simp add: algebra_simps)
qed

lemma minus_one_day_ordinal:
  assumes v: "valid_datetime d" and p: "minus_one_day d = Inr q"
  shows "valid_datetime q \<and> toordinal q = toordinal d - 1"
proof -
  obtain yr mo dy hr mi sc us where n: "d = \<lparr> dt_year = yr, dt_month = mo, dt_day = dy,
      dt_hour = hr, dt_minute = mi, dt_second = sc, dt_microsecond = us \<rparr>"
    by (cases d)
  from v have mo: "mo = 1 \<or> mo = 2 \<or> mo = 3 \<or> mo = 4 \<or> mo = 5 \<or> mo = 6 \<or> mo = 7 \<or>
      mo = 8 \<or> mo = 9 \<or> mo = 10 \<or> mo = 11 \<or> mo = 12"
    unfolding valid_datetime_def n by simp presburger
  show ?thesis
  proof (cases "1 < dy")
    case True
    with v p show ?thesis
      by (auto simp: n minus_one_day_def valid_datetime_def toordinal_def)
  next
    case False
    with v have dy: "dy = 1" by (simp add: n valid_datetime_def)
    show ?thesis
    proof (cases "mo = 1")
      case True
      with p dy have yr: "1 < yr" and q: "q = d\<lparr>dt_year := yr - 1, dt_month := 12, dt_day := 31\<rparr>"
        by (auto simp: n minus_one_day_def split: if_splits)
      have "days_before_year yr = days_before_year (yr - 1) + (if is_leap (yr - 1) then 366 else 365)"
        using days_before_year_step [of "yr - 1"] by simp
      with v yr True dy show ?thesis
        by (simp add: q n valid_datetime_def toordinal_def days_before_month_def days_in_month_def)
    next
      case False
      with mo p dy have q: "q = d\<lparr>dt_month := mo - 1, dt_day := days_in_month yr (mo - 1)\<rparr>"
        by (auto simp: n minus_one_day_def split: if_splits)
      from v False mo dy show ?thesis
        by (auto simp: q n valid_datetime_def toordinal_def days_before_month_def days_in_month_def)
    qed
  qed
qed

lemma minus_one_day_overflow:
  "valid_datetime d \<Longrightarrow>
   (minus_one_day d = Inl OverflowError) = (dt_year d = 1 \<and> dt_month d = 1 \<and> dt_day d = 1)"
  by (auto simp: minus_one_day_def valid_datetime_def)


lemma minus_one_second_ordinal:
  assumes v: "valid_datetime d" and p: "minus_one_second d = Inr q"
  shows "toordinal q * 86400 + dt_hour q * 3600 + dt_minute q * 60 + dt_second q
           = toordinal d * 86400 + dt_hour d * 3600 + dt_minute d * 60 + dt_second d - 1"
proof (cases "0 < dt_second d \<or> 0 < dt_minute d \<or> 0 < dt_hour d")
  case True
  with p v show ?thesis
    by (auto simp: minus_one_second_def toordinal_def valid_datetime_def split: if_splits)
next
  case False
  with v have z: "dt_second d = 0" "dt_minute d = 0" "dt_hour d = 0"
    by (simp_all add: valid_datetime_def)
  with p obtain r where r: "minus_one_day d = Inr r"
    and q: "q = r\<lparr>dt_hour := 23, dt_minute := 59, dt_second := 59\<rparr>"
    by (auto simp: minus_one_second_def split: sum.splits)
  from minus_one_day_ordinal [OF v r] have "toordinal r = toordinal d - 1" by simp
  then have "toordinal q = toordinal d - 1" by (simp add: q toordinal_def)
  then show ?thesis by (simp add: q z)
qed

subsection \<open>The previous month\<close>

lemma u_inj: "(u a = u b) = (a = b)"
  by (simp add: u_def inj_map_eq_map inj_on_def)

text \<open>
  C2.  For every clock reading \<open>now\<close> (other than one in January of year 1, before
  which \<open>datetime\<close> has no month), resolving \<open>previous_month\<close> yields the pair (first
  instant of the calendar month before the month containing \<open>now\<close>, last second of that
  same month), whatever the day of the month of \<open>now\<close>.  Instants are whole epoch
  seconds, obtained from the two naive local times by the platform's conversion.
\<close>

theorem previous_month_complete:
  assumes v: "valid_datetime (now e)"
      and y: "\<not> (dt_year (now e) = 1 \<and> dt_month (now e) = 1)"
  shows "resolve_period e (u ''previous_month'') =
           Inr (int_timestamp e (first_instant (prev_month_of (now e))),
                int_timestamp e (last_instant (prev_month_of (now e))))"
proof -
  have ctr: "calculate_time_range (u ''previous_month'') = Inr (u ''now-1M/M'', u ''now-1M/M'')"
    by (simp add: calculate_time_range_def u_inj)
  have n1: "u ''now-1M/M'' \<noteq> u ''now''" "u ''now-1M/M'' \<noteq> u ''now-30d''"
    by (simp_all add: u_inj)
  obtain yr mo dy hr mi sc us where n: "now e = \<lparr> dt_year = yr, dt_month = mo, dt_day = dy,
      dt_hour = hr, dt_minute = mi, dt_second = sc, dt_microsecond = us \<rparr>"
    by (cases "now e")
  from v have m: "1 \<le> dt_month (now e)" "1 \<le> dt_year (now e)" by (simp_all add: valid_datetime_def)
  show ?thesis
  proof (cases "dt_month (now e) = 1")
    case True
    with y m have yy: "1 < dt_year (now e)" by simp
    show ?thesis
      using True yy
      by (simp add: n resolve_period_def ctr convert_time_range_def parse_time_def n1 Let_def
            first_of_month_def minus_one_day_def minus_one_second_def prev_month_of_def
            first_instant_def last_instant_def days_in_month_def)
  next
    case False
    with m have mm: "1 < dt_month (now e)" by simp
    show ?thesis
      using False mm
      by (simp add: n resolve_period_def ctr convert_time_range_def parse_time_def n1 Let_def
            first_of_month_def minus_one_day_def minus_one_second_def prev_month_of_def
            first_instant_def last_instant_def)
  qed
qed


theorem previous_month_complete_witness:
  "valid_datetime (now example_clock) \<and>
   \<not> (dt_year (now example_clock) = 1 \<and> dt_month (now example_clock) = 1) \<and>
   resolve_period example_clock (u ''previous_month'') = Inr (1706745600, 1709251199)"
proof -
  have v: "valid_datetime (now example_clock)"
    by (simp add: valid_datetime_def example_clock_def days_in_month_def)
  have y: "\<not> (dt_year (now example_clock) = 1 \<and> dt_month (now example_clock) = 1)"
    by (simp add: example_clock_def)
  have f: "int_timestamp example_clock (first_instant (prev_month_of (now example_clock)))
             = 1706745600"
    by (simp add: example_clock_def prev_month_of_def first_instant_def toordinal_def
          days_before_year_def days_before_month_def is_leap_def)
  have l: "int_timestamp example_clock (last_instant (prev_month_of (now example_clock)))
             = 1709251199"
    by (simp add: example_clock_def prev_month_of_def last_instant_def toordinal_def
          days_before_year_def days_before_month_def is_leap_def days_in_month_def)
  from previous_month_complete [OF v y] f l v y show ?thesis by simp
qed

section \<open>Properties of double rounding\<close>

lemma pow2_pos: "0 < pow2 e"
  by (simp add: pow2_def)

lemma pow2_powr: "pow2 e = 2 powr (of_int e)"
  by (simp add: pow2_def powr_int)

lemma pow2_mono: "a \<le> b \<Longrightarrow> pow2 a \<le> pow2 b"
  by (simp add: pow2_powr)

lemma pow2_add: "pow2 (a + b) = pow2 a * pow2 b"
  by (simp add: pow2_powr powr_add)

lemma expo_bounds:
  assumes "x \<noteq> 0"
  shows "pow2 (expo x) \<le> \<bar>x\<bar>" and "\<bar>x\<bar> < pow2 (expo x + 1)"
proof -
  have ax: "0 < \<bar>x\<bar>" using assms by simp
  have "of_int (expo x) \<le> log 2 \<bar>x\<bar>" by (simp add: expo_def)
  then show "pow2 (expo x) \<le> \<bar>x\<bar>"
    using ax by (simp add: pow2_powr le_log_iff)
  have "log 2 \<bar>x\<bar> < of_int (expo x + 1)" unfolding expo_def by linarith
  then show "\<bar>x\<bar> < pow2 (expo x + 1)"
    using ax by (simp add: pow2_powr log_less_iff)
qed

lemma expo_unique:
  assumes "pow2 e \<le> \<bar>x\<bar>" and "\<bar>x\<bar> < pow2 (e + 1)"
  shows "expo x = e"
proof -
  have ax: "0 < \<bar>x\<bar>" using assms(1) pow2_pos [of e] by linarith
  have "of_int e \<le> log 2 \<bar>x\<bar>"
    using assms(1) ax by (simp add: pow2_powr le_log_iff)
  moreover have "log 2 \<bar>x\<bar> < of_int e + 1"
    using assms(2) ax by (simp add: pow2_powr log_less_iff)
  ultimately show ?thesis unfolding expo_def by (intro floor_unique) simp_all
qed

lemma fl_eval:
  assumes "pow2 e \<le> \<bar>x\<bar>" and "\<bar>x\<bar> < pow2 (e + 1)"
  shows "fl x = of_int (rint (x / pow2 (e - 52))) * pow2 (e - 52)"
proof -
  have "x \<noteq> 0" using assms(1) pow2_pos [of e] by auto
  then show ?thesis by (simp add: fl_def expo_unique [OF assms])
qed

lemma rint_of_int: "rint (of_int k) = k"
  by (simp add: rint_def)

lemma rint_bounds: "\<lfloor>x\<rfloor> \<le> rint x \<and> rint x \<le> \<lfloor>x\<rfloor> + 1"
  by (simp add: rint_def Let_def)

lemma rint_mono: "x \<le> y \<Longrightarrow> rint x \<le> rint y"
proof -
  assume xy: "x \<le> y"
  have fl: "\<lfloor>x\<rfloor> \<le> \<lfloor>y\<rfloor>" using xy by (rule floor_mono)
  show ?thesis
  proof (cases "\<lfloor>x\<rfloor> = \<lfloor>y\<rfloor>")
    case True
    then have "x - of_int \<lfloor>x\<rfloor> \<le> y - of_int \<lfloor>y\<rfloor>" using xy by simp
    with True show ?thesis by (auto simp: rint_def Let_def)
  next
    case False
    with fl have "\<lfloor>x\<rfloor> + 1 \<le> \<lfloor>y\<rfloor>" by simp
    with rint_bounds [of x] rint_bounds [of y] show ?thesis by linarith
  qed
qed

lemma rint_minus: "rint (- x) = - rint x"
proof (cases "x = of_int \<lfloor>x\<rfloor>")
  case True
  then obtain k :: int where "x = of_int k" by blast
  then have "rint x = k" "rint (- x) = - k"
    using rint_of_int [of k] rint_of_int [of "- k"] by simp_all
  then show ?thesis by simp
next
  case False
  define f where "f = \<lfloor>x\<rfloor>"
  define d where "d = x - of_int f"
  have d: "0 < d" "d < 1"
    using False unfolding d_def f_def by linarith+
  have fm: "\<lfloor>- x\<rfloor> = - f - 1"
  proof (rule floor_unique)
    show "of_int (- f - 1) \<le> - x" using d by (simp add: d_def)
    show "- x < of_int (- f - 1) + 1" using d by (simp add: d_def)
  qed
  have dm: "- x - of_int (- f - 1) = 1 - d" by (simp add: d_def)
  have r: "rint x = (if d < 1 / 2 then f else if 1 / 2 < d then f + 1
                     else if even f then f else f + 1)"
    by (simp add: rint_def Let_def f_def d_def)
  have rm: "rint (- x) = (if 1 - d < 1 / 2 then - f - 1 else if 1 / 2 < 1 - d then - f
                          else if even (- f - 1) then - f - 1 else - f)"
    unfolding rint_def Let_def fm dm by simp
  consider "d < 1 / 2" | "1 / 2 < d" | "d = 1 / 2" by linarith
  then show ?thesis
  proof cases
    case 1
    then show ?thesis unfolding r rm by simp
  next
    case 2
    then show ?thesis unfolding r rm by simp
  next
    case 3
    then show ?thesis unfolding r rm by simp
  qed
qed

lemma expo_minus: "expo (- x) = expo x"
  by (simp add: expo_def)

lemma fl_minus: "fl (- x) = - fl x"
  by (simp add: fl_def expo_minus rint_minus)

lemma pow2_split: "pow2 e = 2 ^ 52 * pow2 (e - 52)"
proof -
  have "pow2 52 = 2 ^ 52" by (simp add: pow2_def)
  with pow2_add [of 52 "e - 52"] show ?thesis by simp
qed

lemma pow2_Suc: "pow2 (e + 1) = 2 * pow2 e"
proof -
  have "pow2 1 = 2" by (simp add: pow2_def)
  with pow2_add [of 1 e] show ?thesis by (simp add: add.commute)
qed

lemma fl_pos_bounds:
  assumes "0 < x"
  shows "pow2 (expo x) \<le> fl x" and "fl x \<le> pow2 (expo x + 1)"
proof -
  define q where "q = pow2 (expo x - 52)"
  define z where "z = x / q"
  have q: "0 < q" by (simp add: q_def pow2_pos)
  have x0: "x \<noteq> 0" using assms by simp
  have lo: "2 ^ 52 * q \<le> x"
    using expo_bounds(1) [OF x0] assms pow2_split [of "expo x"] by (simp add: q_def)
  have hi: "x < 2 ^ 53 * q"
    using expo_bounds(2) [OF x0] assms pow2_split [of "expo x"] pow2_Suc [of "expo x"]
    by (simp add: q_def)
  have zlo: "of_int (2 ^ 52) \<le> z" using lo q by (simp add: z_def pos_le_divide_eq)
  have zhi: "z \<le> of_int (2 ^ 53)" using hi q by (simp add: z_def pos_divide_le_eq)
  have r1: "2 ^ 52 \<le> rint z" using rint_mono [OF zlo] by (simp only: rint_of_int)
  have r2: "rint z \<le> 2 ^ 53" using rint_mono [OF zhi] by (simp only: rint_of_int)
  have f: "fl x = of_int (rint z) * q" using x0 by (simp add: fl_def z_def q_def)
  have "2 ^ 52 * q \<le> of_int (rint z) * q"
    using r1 q by (intro mult_right_mono) (simp_all add: of_int_le_numeral_power_cancel_iff)
  then show "pow2 (expo x) \<le> fl x"
    using pow2_split [of "expo x"] by (simp add: f q_def)
  have "of_int (rint z) * q \<le> 2 ^ 53 * q"
    using r2 q by (intro mult_right_mono) (simp_all add: of_int_le_numeral_power_cancel_iff)
  then show "fl x \<le> pow2 (expo x + 1)"
    using pow2_split [of "expo x"] pow2_Suc [of "expo x"] by (simp add: f q_def)
qed

lemma expo_mono: "0 < x \<Longrightarrow> x \<le> y \<Longrightarrow> expo x \<le> expo y"
  unfolding expo_def by (intro floor_mono) simp

lemma fl_mono_pos:
  assumes "0 < x" and "x \<le> y"
  shows "fl x \<le> fl y"
proof (cases "expo x = expo y")
  case True
  have "x / pow2 (expo y - 52) \<le> y / pow2 (expo y - 52)"
    using assms(2) pow2_pos [of "expo y - 52"] by (simp add: divide_right_mono)
  then have "rint (x / pow2 (expo y - 52)) \<le> rint (y / pow2 (expo y - 52))"
    by (rule rint_mono)
  then have "of_int (rint (x / pow2 (expo y - 52))) * pow2 (expo y - 52)
               \<le> of_int (rint (y / pow2 (expo y - 52))) * pow2 (expo y - 52)"
    using pow2_pos [of "expo y - 52"] by (intro mult_right_mono) simp_all
  then show ?thesis using assms by (simp add: fl_def True)
next
  case False
  with expo_mono [OF assms] have "expo x + 1 \<le> expo y" by simp
  then have "pow2 (expo x + 1) \<le> pow2 (expo y)" by (rule pow2_mono)
  moreover have "0 < y" using assms by simp
  ultimately show ?thesis
    using fl_pos_bounds(2) [OF assms(1)] fl_pos_bounds(1) [of y] by linarith
qed

lemma fl_pos: "0 < x \<Longrightarrow> 0 < fl x"
  using fl_pos_bounds(1) [of x] pow2_pos [of "expo x"] by linarith

lemma fl_zero: "fl 0 = 0"
  by (simp add: fl_def)

lemma fl_mono: "x \<le> y \<Longrightarrow> fl x \<le> fl y"
proof -
  assume xy: "x \<le> y"
  consider "0 < x" | "x = 0" | "x < 0" "y < 0" | "x < 0" "0 \<le> y" by linarith
  then show ?thesis
  proof cases
    case 1
    then show ?thesis using xy by (rule fl_mono_pos)
  next
    case 2
    then show ?thesis using xy fl_pos [of y] by (cases "y = 0") (simp_all add: fl_zero)
  next
    case 3
    then have "fl (- y) \<le> fl (- x)" using xy by (intro fl_mono_pos) simp_all
    then show ?thesis by (simp add: fl_minus)
  next
    case 4
    then have "0 < fl (- x)" by (intro fl_pos) simp
    then have "fl x < 0" by (simp add: fl_minus)
    moreover have "0 \<le> fl y" using 4 fl_pos [of y] by (cases "y = 0") (simp_all add: fl_zero)
    ultimately show ?thesis by simp
  qed
qed

lemma round_np_mono: "x \<le> y \<Longrightarrow> round_np x \<le> round_np y"
proof -
  assume "x \<le> y"
  then have "fl (x * 100) \<le> fl (y * 100)" by (intro fl_mono) simp
  then have "rint (fl (x * 100)) \<le> rint (fl (y * 100))" by (rule rint_mono)
  then have "(of_int (rint (fl (x * 100))) :: real) / 100 \<le> of_int (rint (fl (y * 100))) / 100"
    by simp
  then show ?thesis unfolding round_np_def by (rule fl_mono)
qed

lemma fl_of_int:
  assumes "\<bar>k\<bar> < 2 ^ 53"
  shows "fl (of_int k) = of_int k"
proof (cases "k = 0")
  case True
  then show ?thesis by (simp add: fl_zero)
next
  case False
  define e where "e = expo (of_int k)"
  have k0: "(of_int k :: real) \<noteq> 0" using False by simp
  have "pow2 e \<le> \<bar>of_int k\<bar>" and eh: "\<bar>of_int k :: real\<bar> < pow2 (e + 1)"
    unfolding e_def using expo_bounds [OF k0] by simp_all
  have "(1::real) \<le> \<bar>of_int k\<bar>" using False by (simp flip: of_int_abs add: of_int_1_le_iff)
  with eh have "pow2 0 < pow2 (e + 1)" by (simp add: pow2_def)
  then have e0: "0 \<le> e" using pow2_mono [of "e + 1" 0] by (cases "0 \<le> e") auto
  have "\<bar>of_int k :: real\<bar> < pow2 53"
    using assms by (simp add: pow2_def flip: of_int_abs)
  with \<open>pow2 e \<le> \<bar>of_int k\<bar>\<close> have "pow2 e < pow2 53" by linarith
  then have e52: "e \<le> 52" using pow2_mono [of 53 e] by (cases "e \<le> 52") auto
  define n where "n = nat (52 - e)"
  have q: "pow2 (e - 52) = 1 / 2 ^ n"
    using e52 by (cases "e = 52") (simp_all add: pow2_def n_def)
  have "of_int k / pow2 (e - 52) = (of_int (k * 2 ^ n) :: real)" by (simp add: q)
  then have "rint (of_int k / pow2 (e - 52)) = k * 2 ^ n" by (simp only: rint_of_int)
  then have "fl (of_int k) = of_int (k * 2 ^ n) * pow2 (e - 52)"
    using k0 by (simp add: fl_def e_def)
  then show ?thesis by (simp add: q)
qed

lemma fl_numeral: "(numeral n :: int) < 2 ^ 53 \<Longrightarrow> fl (numeral n) = numeral n"
  using fl_of_int [of "numeral n"] by simp

lemma fl_one: "fl 1 = 1"
  using fl_of_int [of 1] by simp


lemma round_np_hundredth: "\<exists>k::int. round_np x = fl (of_int k / 100)"
  unfolding round_np_def by blast

subsection \<open>The rounding steps of the examples\<close>

text \<open>
  Each lemma is one rounding: the exact argument and the double it rounds to, both as
  fractions in lowest terms.
\<close>

text \<open>The mean of 1, 2, 2 and its rounding to two decimals.\<close>

lemma fl_thirds_mean: "fl (5 / 3) = 7505999378950827 / 4503599627370496"
proof -
  have "fl (5 / 3) = of_int (rint ((5 / 3) / pow2 (0 - 52))) * pow2 (0 - 52)"
    by (rule fl_eval) (simp_all add: pow2_def)
  also have "rint ((5 / 3) / pow2 (0 - 52)) = 7505999378950827"
    by (simp add: rint_def pow2_def Let_def)
  finally show ?thesis by (simp add: pow2_def)
qed

lemma fl_thirds_mean_scaled: "fl (187649984473770675 / 1125899906842624) = 2932031007402667 / 17592186044416"
proof -
  have "fl (187649984473770675 / 1125899906842624) = of_int (rint ((187649984473770675 / 1125899906842624) / pow2 (7 - 52))) * pow2 (7 - 52)"
    by (rule fl_eval) (simp_all add: pow2_def)
  also have "rint ((187649984473770675 / 1125899906842624) / pow2 (7 - 52)) = 5864062014805334"
    by (simp add: rint_def pow2_def Let_def)
  finally show ?thesis by (simp add: pow2_def)
qed

lemma rint_thirds_mean_scaled: "rint (2932031007402667 / 17592186044416) = 167"
  by (simp add: rint_def Let_def)

lemma fl_hundredths_167: "fl (167 / 100) = 940126422213591 / 562949953421312"
proof -
  have "fl (167 / 100) = of_int (rint ((167 / 100) / pow2 (0 - 52))) * pow2 (0 - 52)"
    by (rule fl_eval) (simp_all add: pow2_def)
  also have "rint ((167 / 100) / pow2 (0 - 52)) = 7521011377708728"
    by (simp add: rint_def pow2_def Let_def)
  finally show ?thesis by (simp add: pow2_def)
qed

text \<open>Three times the double nearest to 2.675: the sum, the mean and the roundings.\<close>

lemma fl_const: "fl (107 / 40) = 3011782250804019 / 1125899906842624"
proof -
  have "fl (107 / 40) = of_int (rint ((107 / 40) / pow2 (1 - 52))) * pow2 (1 - 52)"
    by (rule fl_eval) (simp_all add: pow2_def)
  also have "rint ((107 / 40) / pow2 (1 - 52)) = 6023564501608038"
    by (simp add: rint_def pow2_def Let_def)
  finally show ?thesis by (simp add: pow2_def)
qed

lemma fl_const_first: "fl (3011782250804019 / 1125899906842624) = 3011782250804019 / 1125899906842624"
proof -
  have "fl (3011782250804019 / 1125899906842624) = of_int (rint ((3011782250804019 / 1125899906842624) / pow2 (1 - 52))) * pow2 (1 - 52)"
    by (rule fl_eval) (simp_all add: pow2_def)
  also have "rint ((3011782250804019 / 1125899906842624) / pow2 (1 - 52)) = 6023564501608038"
    by (simp add: rint_def pow2_def Let_def)
  finally show ?thesis by (simp add: pow2_def)
qed

lemma fl_const_sum2: "fl (3011782250804019 / 562949953421312) = 3011782250804019 / 562949953421312"
proof -
  have "fl (3011782250804019 / 562949953421312) = of_int (rint ((3011782250804019 / 562949953421312) / pow2 (2 - 52))) * pow2 (2 - 52)"
    by (rule fl_eval) (simp_all add: pow2_def)
  also have "rint ((3011782250804019 / 562949953421312) / pow2 (2 - 52)) = 6023564501608038"
    by (simp add: rint_def pow2_def Let_def)
  finally show ?thesis by (simp add: pow2_def)
qed

lemma fl_const_sum3: "fl (9035346752412057 / 1125899906842624) = 1129418344051507 / 140737488355328"
proof -
  have "fl (9035346752412057 / 1125899906842624) = of_int (rint ((9035346752412057 / 1125899906842624) / pow2 (3 - 52))) * pow2 (3 - 52)"
    by (rule fl_eval) (simp_all add: pow2_def)
  also have "rint ((9035346752412057 / 1125899906842624) / pow2 (3 - 52)) = 4517673376206028"
    by (simp add: rint_def pow2_def Let_def)
  finally show ?thesis by (simp add: pow2_def)
qed

lemma fl_const_mean: "fl (1129418344051507 / 422212465065984) = 6023564501608037 / 2251799813685248"
proof -
  have "fl (1129418344051507 / 422212465065984) = of_int (rint ((1129418344051507 / 422212465065984) / pow2 (1 - 52))) * pow2 (1 - 52)"
    by (rule fl_eval) (simp_all add: pow2_def)
  also have "rint ((1129418344051507 / 422212465065984) / pow2 (1 - 52)) = 6023564501608037"
    by (simp add: rint_def pow2_def Let_def)
  finally show ?thesis by (simp add: pow2_def)
qed

lemma fl_const_mean_scaled: "fl (150589112540200925 / 562949953421312) = 4705909766881279 / 17592186044416"
proof -
  have "fl (150589112540200925 / 562949953421312) = of_int (rint ((150589112540200925 / 562949953421312) / pow2 (8 - 52))) * pow2 (8 - 52)"
    by (rule fl_eval) (simp_all add: pow2_def)
  also have "rint ((150589112540200925 / 562949953421312) / pow2 (8 - 52)) = 4705909766881279"
    by (simp add: rint_def pow2_def Let_def)
  finally show ?thesis by (simp add: pow2_def)
qed

lemma rint_const_mean_scaled: "rint (4705909766881279 / 17592186044416) = 267"
  by (simp add: rint_def Let_def)

lemma fl_hundredths_267: "fl (267 / 100) = 1503076375634903 / 562949953421312"
proof -
  have "fl (267 / 100) = of_int (rint ((267 / 100) / pow2 (1 - 52))) * pow2 (1 - 52)"
    by (rule fl_eval) (simp_all add: pow2_def)
  also have "rint ((267 / 100) / pow2 (1 - 52)) = 6012305502539612"
    by (simp add: rint_def pow2_def Let_def)
  finally show ?thesis by (simp add: pow2_def)
qed

lemma fl_const_scaled: "fl (75294556270100475 / 281474976710656) = 535 / 2"
proof -
  have "fl (75294556270100475 / 281474976710656) = of_int (rint ((75294556270100475 / 281474976710656) / pow2 (8 - 52))) * pow2 (8 - 52)"
    by (rule fl_eval) (simp_all add: pow2_def)
  also have "rint ((75294556270100475 / 281474976710656) / pow2 (8 - 52)) = 4705909766881280"
    by (simp add: rint_def pow2_def Let_def)
  finally show ?thesis by (simp add: pow2_def)
qed

lemma rint_const_scaled: "rint (535 / 2) = 268"
  by (simp add: rint_def Let_def)

lemma fl_hundredths_268: "fl (67 / 25) = 6034823500676465 / 2251799813685248"
proof -
  have "fl (67 / 25) = of_int (rint ((67 / 25) / pow2 (1 - 52))) * pow2 (1 - 52)"
    by (rule fl_eval) (simp_all add: pow2_def)
  also have "rint ((67 / 25) / pow2 (1 - 52)) = 6034823500676465"
    by (simp add: rint_def pow2_def Let_def)
  finally show ?thesis by (simp add: pow2_def)
qed

text \<open>The doubles nearest to 0.01, 0.015 and 0.05, added in both orders.\<close>

lemma fl_order_x1: "fl (1 / 100) = 5764607523034235 / 576460752303423488"
proof -
  have "fl (1 / 100) = of_int (rint ((1 / 100) / pow2 (- 7 - 52))) * pow2 (- 7 - 52)"
    by (rule fl_eval) (simp_all add: pow2_def)
  also have "rint ((1 / 100) / pow2 (- 7 - 52)) = 5764607523034235"
    by (simp add: rint_def pow2_def Let_def)
  finally show ?thesis by (simp add: pow2_def)
qed

lemma fl_order_x2: "fl (3 / 200) = 1080863910568919 / 72057594037927936"
proof -
  have "fl (3 / 200) = of_int (rint ((3 / 200) / pow2 (- 7 - 52))) * pow2 (- 7 - 52)"
    by (rule fl_eval) (simp_all add: pow2_def)
  also have "rint ((3 / 200) / pow2 (- 7 - 52)) = 8646911284551352"
    by (simp add: rint_def pow2_def Let_def)
  finally show ?thesis by (simp add: pow2_def)
qed

lemma fl_order_x3: "fl (1 / 20) = 3602879701896397 / 72057594037927936"
proof -
  have "fl (1 / 20) = of_int (rint ((1 / 20) / pow2 (- 5 - 52))) * pow2 (- 5 - 52)"
    by (rule fl_eval) (simp_all add: pow2_def)
  also have "rint ((1 / 20) / pow2 (- 5 - 52)) = 7205759403792794"
    by (simp add: rint_def pow2_def Let_def)
  finally show ?thesis by (simp add: pow2_def)
qed

lemma fl_order_fwd_first: "fl (5764607523034235 / 576460752303423488) = 5764607523034235 / 576460752303423488"
proof -
  have "fl (5764607523034235 / 576460752303423488) = of_int (rint ((5764607523034235 / 576460752303423488) / pow2 (- 7 - 52))) * pow2 (- 7 - 52)"
    by (rule fl_eval) (simp_all add: pow2_def)
  also have "rint ((5764607523034235 / 576460752303423488) / pow2 (- 7 - 52)) = 5764607523034235"
    by (simp add: rint_def pow2_def Let_def)
  finally show ?thesis by (simp add: pow2_def)
qed

lemma fl_order_fwd_sum2: "fl (14411518807585587 / 576460752303423488) = 3602879701896397 / 144115188075855872"
proof -
  have "fl (14411518807585587 / 576460752303423488) = of_int (rint ((14411518807585587 / 576460752303423488) / pow2 (- 6 - 52))) * pow2 (- 6 - 52)"
    by (rule fl_eval) (simp_all add: pow2_def)
  also have "rint ((14411518807585587 / 576460752303423488) / pow2 (- 6 - 52)) = 7205759403792794"
    by (simp add: rint_def pow2_def Let_def)
  finally show ?thesis by (simp add: pow2_def)
qed

lemma fl_order_fwd_sum3: "fl (10808639105689191 / 144115188075855872) = 1351079888211149 / 18014398509481984"
proof -
  have "fl (10808639105689191 / 144115188075855872) = of_int (rint ((10808639105689191 / 144115188075855872) / pow2 (- 4 - 52))) * pow2 (- 4 - 52)"
    by (rule fl_eval) (simp_all add: pow2_def)
  also have "rint ((10808639105689191 / 144115188075855872) / pow2 (- 4 - 52)) = 5404319552844596"
    by (simp add: rint_def pow2_def Let_def)
  finally show ?thesis by (simp add: pow2_def)
qed

lemma fl_order_fwd_mean: "fl (1351079888211149 / 54043195528445952) = 7205759403792795 / 288230376151711744"
proof -
  have "fl (1351079888211149 / 54043195528445952) = of_int (rint ((1351079888211149 / 54043195528445952) / pow2 (- 6 - 52))) * pow2 (- 6 - 52)"
    by (rule fl_eval) (simp_all add: pow2_def)
  also have "rint ((1351079888211149 / 54043195528445952) / pow2 (- 6 - 52)) = 7205759403792795"
    by (simp add: rint_def pow2_def Let_def)
  finally show ?thesis by (simp add: pow2_def)
qed

lemma fl_order_rev_first: "fl (3602879701896397 / 72057594037927936) = 3602879701896397 / 72057594037927936"
proof -
  have "fl (3602879701896397 / 72057594037927936) = of_int (rint ((3602879701896397 / 72057594037927936) / pow2 (- 5 - 52))) * pow2 (- 5 - 52)"
    by (rule fl_eval) (simp_all add: pow2_def)
  also have "rint ((3602879701896397 / 72057594037927936) / pow2 (- 5 - 52)) = 7205759403792794"
    by (simp add: rint_def pow2_def Let_def)
  finally show ?thesis by (simp add: pow2_def)
qed

lemma fl_order_rev_sum2: "fl (1170935903116329 / 18014398509481984) = 1170935903116329 / 18014398509481984"
proof -
  have "fl (1170935903116329 / 18014398509481984) = of_int (rint ((1170935903116329 / 18014398509481984) / pow2 (- 4 - 52))) * pow2 (- 4 - 52)"
    by (rule fl_eval) (simp_all add: pow2_def)
  also have "rint ((1170935903116329 / 18014398509481984) / pow2 (- 4 - 52)) = 4683743612465316"
    by (simp add: rint_def pow2_def Let_def)
  finally show ?thesis by (simp add: pow2_def)
qed

lemma fl_order_rev_sum3: "fl (43234556422756763 / 576460752303423488) = 5404319552844595 / 72057594037927936"
proof -
  have "fl (43234556422756763 / 576460752303423488) = of_int (rint ((43234556422756763 / 576460752303423488) / pow2 (- 4 - 52))) * pow2 (- 4 - 52)"
    by (rule fl_eval) (simp_all add: pow2_def)
  also have "rint ((43234556422756763 / 576460752303423488) / pow2 (- 4 - 52)) = 5404319552844595"
    by (simp add: rint_def pow2_def Let_def)
  finally show ?thesis by (simp add: pow2_def)
qed

lemma fl_order_rev_mean: "fl (5404319552844595 / 216172782113783808) = 7205759403792793 / 288230376151711744"
proof -
  have "fl (5404319552844595 / 216172782113783808) = of_int (rint ((5404319552844595 / 216172782113783808) / pow2 (- 6 - 52))) * pow2 (- 6 - 52)"
    by (rule fl_eval) (simp_all add: pow2_def)
  also have "rint ((5404319552844595 / 216172782113783808) / pow2 (- 6 - 52)) = 7205759403792793"
    by (simp add: rint_def pow2_def Let_def)
  finally show ?thesis by (simp add: pow2_def)
qed

lemma fl_order_fwd_mean_scaled: "fl (180143985094819875 / 72057594037927936) = 5629499534213121 / 2251799813685248"
proof -
  have "fl (180143985094819875 / 72057594037927936) = of_int (rint ((180143985094819875 / 72057594037927936) / pow2 (1 - 52))) * pow2 (1 - 52)"
    by (rule fl_eval) (simp_all add: pow2_def)
  also have "rint ((180143985094819875 / 72057594037927936) / pow2 (1 - 52)) = 5629499534213121"
    by (simp add: rint_def pow2_def Let_def)
  finally show ?thesis by (simp add: pow2_def)
qed

lemma rint_order_fwd_mean_scaled: "rint (5629499534213121 / 2251799813685248) = 3"
  by (simp add: rint_def Let_def)

lemma fl_hundredths_3: "fl (3 / 100) = 1080863910568919 / 36028797018963968"
proof -
  have "fl (3 / 100) = of_int (rint ((3 / 100) / pow2 (- 6 - 52))) * pow2 (- 6 - 52)"
    by (rule fl_eval) (simp_all add: pow2_def)
  also have "rint ((3 / 100) / pow2 (- 6 - 52)) = 8646911284551352"
    by (simp add: rint_def pow2_def Let_def)
  finally show ?thesis by (simp add: pow2_def)
qed

lemma fl_order_rev_mean_scaled: "fl (180143985094819825 / 72057594037927936) = 5 / 2"
proof -
  have "fl (180143985094819825 / 72057594037927936) = of_int (rint ((180143985094819825 / 72057594037927936) / pow2 (1 - 52))) * pow2 (1 - 52)"
    by (rule fl_eval) (simp_all add: pow2_def)
  also have "rint ((180143985094819825 / 72057594037927936) / pow2 (1 - 52)) = 5629499534213120"
    by (simp add: rint_def pow2_def Let_def)
  finally show ?thesis by (simp add: pow2_def)
qed

lemma rint_order_rev_mean_scaled: "rint (5 / 2) = 2"
  by (simp add: rint_def Let_def)

lemma fl_hundredths_2: "fl (1 / 50) = 5764607523034235 / 288230376151711744"
proof -
  have "fl (1 / 50) = of_int (rint ((1 / 50) / pow2 (- 6 - 52))) * pow2 (- 6 - 52)"
    by (rule fl_eval) (simp_all add: pow2_def)
  also have "rint ((1 / 50) / pow2 (- 6 - 52)) = 5764607523034235"
    by (simp add: rint_def pow2_def Let_def)
  finally show ?thesis by (simp add: pow2_def)
qed

section \<open>Properties of the statistics computation\<close>

subsection \<open>Columns without NaN\<close>







subsection \<open>The fields of a populated summary\<close>

lemma calculate_statistics_Some:
  "ts \<noteq> [] \<Longrightarrow> \<exists>s. calculate_statistics L ts = Some s"
  by (simp add: calculate_statistics_def Let_def)

lemma summary_fields:
  assumes "calculate_statistics L ts = Some s"
  shows "avg_monthly s = round2 (series_mean L (map value_avg ts))"
    and "max_absolute s = round2 (series_max (map value_max ts))"
    and "min_absolute s = round2 (series_min (map value_min ts))"
    and "p95 s = round2 (series_quantile L (fl (95 / 100)) (map value_avg ts))"
    and "p99 s = round2 (series_quantile L (fl (99 / 100)) (map value_avg ts))"
    and "std_deviation s = round2 (series_std L (map value_avg ts))"
    and "peak_hours s = map hour_label (map fst (nlargest 3 (groupby_mean L hour_of ts)))"
    and "peak_days s = map fst (nlargest 3 (groupby_mean L day_name_of ts))"
    and "total_data_points s = length ts"
    and "period_start s = strftime_ymd (Min (set (map clock ts)))"
    and "period_end s = strftime_ymd (Max (set (map clock ts)))"
  using assms by (auto simp: calculate_statistics_def Let_def split: if_splits)

lemma two_decimals_round2: "two_decimals (round2 v)"
proof (cases v)
  case None
  then show ?thesis by (simp add: two_decimals_def round2_def)
next
  case (Some x)
  then show ?thesis using round_np_hundredth [of x] by (simp add: two_decimals_def round2_def)
qed

lemma round2_mono:
  "x \<le> y \<Longrightarrow> round2 (Some x) = Some a \<Longrightarrow> round2 (Some y) = Some b \<Longrightarrow> a \<le> b"
  using round_np_mono [of x y] by (auto simp: round2_def)

subsection \<open>Ranking of buckets\<close>

lemma insort_key_cong_le:
  "\<forall>a \<in> set A. (f x \<le> f a) = (g x \<le> g a) \<Longrightarrow> insort_key f x A = insort_key g x A"
  by (induction A) auto

lemma insort_key_append_le:
  "\<forall>b \<in> set B. f x \<le> f b \<Longrightarrow> insort_key f x (A @ B) = insort_key f x A @ B"
proof (induction A)
  case Nil
  then show ?case by (cases B) auto
next
  case (Cons a A)
  then show ?case by auto
qed

lemma insort_key_past:
  "\<forall>a \<in> set A. f a < f x \<Longrightarrow> insort_key f x (A @ B) = A @ insort_key f x B"
  by (induction A) auto

lemma insort_key_front: "\<forall>b \<in> set B. f x \<le> f b \<Longrightarrow> insort_key f x B = x # B"
  by (cases B) auto

lemma sort_key_bucket_rank:
  assumes "sorted (map (\<lambda>b. kr (fst b)) s)" and "distinct (map (\<lambda>b. kr (fst b)) s)"
  shows "sort_key (bucket_rank kr) s =
           sort_key (\<lambda>(k, v). - the v) (filter (\<lambda>(k, v). v \<noteq> None) s)
           @ filter (\<lambda>(k, v). v = None) s"
  using assms
proof (induction s)
  case Nil
  show ?case by simp
next
  case (Cons x xs)
  let ?A = "sort_key (\<lambda>(k, v). - the v) (filter (\<lambda>(k, v). v \<noteq> None) xs)"
  let ?B = "filter (\<lambda>(k, v). v = None) xs"
  from Cons have IH: "sort_key (bucket_rank kr) xs = ?A @ ?B" by simp
  from Cons.prems have lt: "\<forall>b \<in> set xs. kr (fst x) < kr (fst b)"
    by (auto simp: less_le)
  have setA: "set ?A = {b \<in> set xs. snd b \<noteq> None}" by (auto simp: split_def)
  have setB: "set ?B = {b \<in> set xs. snd b = None}" by (auto simp: split_def)
  obtain k v where x: "x = (k, v)" by (cases x)
  show ?case
  proof (cases v)
    case None
    have 1: "\<forall>a \<in> set ?A. bucket_rank kr a < bucket_rank kr x"
      using setA by (auto simp: bucket_rank_def x None)
    have 2: "\<forall>b \<in> set ?B. bucket_rank kr x \<le> bucket_rank kr b"
      using setB lt by (auto simp: bucket_rank_def x None)
    have "sort_key (bucket_rank kr) (x # xs) = insort_key (bucket_rank kr) x (?A @ ?B)"
      by (simp add: IH)
    also have "\<dots> = ?A @ insort_key (bucket_rank kr) x ?B"
      using 1 by (rule insort_key_past)
    also have "\<dots> = ?A @ x # ?B"
      using 2 by (simp add: insort_key_front)
    finally show ?thesis by (simp add: x None)
  next
    case (Some r)
    have 2: "\<forall>b \<in> set ?B. bucket_rank kr x \<le> bucket_rank kr b"
      using setB by (auto simp: bucket_rank_def x Some)
    have 3: "\<forall>a \<in> set ?A. (bucket_rank kr x \<le> bucket_rank kr a)
                 = ((case x of (k, v) \<Rightarrow> - the v) \<le> (case a of (k, v) \<Rightarrow> - the v))"
    proof
      fix a assume a: "a \<in> set ?A"
      with setA have ax: "a \<in> set xs" and "snd a \<noteq> None" by auto
      then obtain w where w: "snd a = Some w" by auto
      from lt ax have "kr k < kr (fst a)" by (simp add: x)
      then show "(bucket_rank kr x \<le> bucket_rank kr a)
                 = ((case x of (k, v) \<Rightarrow> - the v) \<le> (case a of (k, v) \<Rightarrow> - the v))"
        by (auto simp: bucket_rank_def x Some w split_def)
    qed
    have "sort_key (bucket_rank kr) (x # xs) = insort_key (bucket_rank kr) x (?A @ ?B)"
      by (simp add: IH)
    also have "\<dots> = insort_key (bucket_rank kr) x ?A @ ?B"
      using 2 by (rule insort_key_append_le)
    also have "\<dots> = insort_key (\<lambda>(k, v). - the v) x ?A @ ?B"
      using 3 by (simp add: insort_key_cong_le)
    finally show ?thesis by (simp add: x Some)
  qed
qed

lemma groupby_keys: "map fst (groupby_mean L key df) = sort (remdups (map key df))"
  by (simp add: groupby_mean_def comp_def)

lemma nlargest_top_buckets:
  "map fst (nlargest n (groupby_mean L key df))
     = top_buckets (\<lambda>k. k) n (groupby_mean L key df)"
proof -
  have m: "map (\<lambda>b. fst b) (groupby_mean L key df) = sort (remdups (map key df))"
    using groupby_keys [of L key df] by simp
  have "sorted (map (\<lambda>b. fst b) (groupby_mean L key df))"
    and "distinct (map (\<lambda>b. fst b) (groupby_mean L key df))"
    unfolding m by simp_all
  from sort_key_bucket_rank [of "\<lambda>k. k", OF this]
  show ?thesis by (simp add: nlargest_def top_buckets_def Let_def)
qed

subsection \<open>Reordering the series\<close>











subsection \<open>Independence of the bucket enumeration\<close>

lemma filter_eq_singleton: "distinct xs \<Longrightarrow> k \<in> set xs \<Longrightarrow> filter (\<lambda>x. x = k) xs = [k]"
  by (induction xs) (auto simp: filter_empty_conv)

lemma sort_key_perm_inj:
  assumes m: "mset bs = mset cs" and inj: "inj_on f (set bs)" and d: "distinct bs"
  shows "sort_key f bs = sort_key f cs"
proof (rule properties_for_sort_key)
  show "mset (sort_key f cs) = mset bs" using m by simp
  show "sorted (map f (sort_key f cs))" by simp
  fix k assume "k \<in> set (sort_key f cs)"
  then have kc: "k \<in> set cs" by simp
  have sets: "set cs = set bs" using m by (metis mset_eq_setD)
  have dc: "distinct cs" using m d by (metis distinct_count_atmost_1 set_mset_mset)
  have e: "filter (\<lambda>x. f k = f x) zs = filter (\<lambda>x. x = k) zs" if "set zs = set bs" for zs
  proof (rule filter_cong)
    fix x assume "x \<in> set zs"
    with that kc sets inj show "(f k = f x) = (x = k)" by (auto dest: inj_onD)
  qed simp
  have "filter (\<lambda>x. f k = f x) (sort_key f cs) = filter (\<lambda>x. x = k) (sort_key f cs)"
    by (rule e) (simp add: sets)
  also have "\<dots> = [k]" using dc kc by (intro filter_eq_singleton) simp_all
  also have "\<dots> = filter (\<lambda>x. x = k) bs" using d kc sets by (simp add: filter_eq_singleton)
  also have "\<dots> = filter (\<lambda>x. f k = f x) bs" by (rule e [symmetric]) simp
  finally show "filter (\<lambda>x. f k = f x) (sort_key f cs) = filter (\<lambda>x. f k = f x) bs" .
qed

lemma top_buckets_perm:
  assumes m: "mset bs = mset cs" and inj: "inj_on kr (fst ` set bs)"
      and d: "distinct (map fst bs)"
  shows "top_buckets kr n bs = top_buckets kr n cs"
proof -
  have "inj_on (bucket_rank kr) (set bs)"
  proof (rule inj_onI)
    fix x y assume x: "x \<in> set bs" and y: "y \<in> set bs"
      and e: "bucket_rank kr x = bucket_rank kr y"
    from e have "kr (fst x) = kr (fst y)"
      by (auto simp: bucket_rank_def split: option.splits)
    with inj x y have "fst x = fst y" by (auto dest: inj_onD)
    with d x y show "x = y" by (metis distinct_map inj_onD)
  qed
  moreover have "distinct bs" using d by (simp add: distinct_map)
  ultimately have "sort_key (bucket_rank kr) bs = sort_key (bucket_rank kr) cs"
    using m by (intro sort_key_perm_inj)
  then show ?thesis by (simp add: top_buckets_def)
qed

lemma groupby_mean_set:
  "set (map fst (groupby_mean L key ts)) = key ` set ts"
  by (simp add: groupby_keys)

lemma groupby_mean_distinct: "distinct (map fst (groupby_mean L key ts))"
  by (simp add: groupby_keys)

lemma top_buckets_groupby_perm:
  "mset bs = mset (groupby_mean L key ts) \<Longrightarrow>
   top_buckets (\<lambda>k. k) n bs = top_buckets (\<lambda>k. k) n (groupby_mean L key ts)"
proof -
  assume m: "mset bs = mset (groupby_mean L key ts)"
  have "top_buckets (\<lambda>k. k) n (groupby_mean L key ts) = top_buckets (\<lambda>k. k) n bs"
    using m [symmetric] by (rule top_buckets_perm) (simp_all add: groupby_mean_distinct)
  then show ?thesis by simp
qed

lemma hour_of_range: "0 \<le> hour_of r \<and> hour_of r < 24"
  by (simp add: hour_of_def)

lemma day_name_of_mem: "day_name_of r \<in> set day_names"
proof -
  have "weekday_of r < length day_names"
    by (simp add: weekday_of_def day_names_def)
  then show ?thesis unfolding day_name_of_def by (rule nth_mem)
qed

subsection \<open>The example series under the example library\<close>

lemmas example_evals =
  fl_thirds_mean fl_thirds_mean_scaled rint_thirds_mean_scaled fl_hundredths_167
  fl_const fl_const_first fl_const_sum2 fl_const_sum3 fl_const_mean fl_const_mean_scaled
  rint_const_mean_scaled fl_hundredths_267 fl_const_scaled rint_const_scaled
  fl_hundredths_268
  fl_order_x1 fl_order_x2 fl_order_x3 fl_order_fwd_first fl_order_fwd_sum2
  fl_order_fwd_sum3 fl_order_fwd_mean fl_order_rev_first fl_order_rev_sum2
  fl_order_rev_sum3 fl_order_rev_mean fl_order_fwd_mean_scaled
  rint_order_fwd_mean_scaled fl_hundredths_3 fl_order_rev_mean_scaled
  rint_order_rev_mean_scaled fl_hundredths_2



lemma example_hours_hourly:
  "groupby_mean example_lib hour_of example_hours = [(0, Some 10), (1, Some 20), (2, Some 30)]"
  "groupby_mean example_lib hour_of (rev example_hours)
     = [(0, Some 10), (1, Some 20), (2, Some 30)]"
  by (simp_all add: groupby_mean_def group_mean_def example_hours_def hour_of_def non_nan_def
        example_lib_def seq_mean_def seq_sum_def fl_numeral)

lemma example_hours_daily:
  "groupby_mean example_lib day_name_of example_hours = [(u ''Thursday'', Some 20)]"
  "groupby_mean example_lib day_name_of (rev example_hours) = [(u ''Thursday'', Some 20)]"
  by (simp_all add: groupby_mean_def group_mean_def example_hours_def day_name_of_def
        weekday_of_def day_names_def non_nan_def example_lib_def seq_mean_def seq_sum_def
        fl_numeral)


lemma example_thirds_mean:
  "series_mean example_lib (map value_avg example_thirds) = Some (7505999378950827 / 4503599627370496)"
  by (simp add: example_thirds_def series_mean_def zero_filled_def non_nan_def example_lib_def seq_sum_def
        fl_numeral fl_one example_evals)

lemma example_thirds_avg:
  "round2 (series_mean example_lib (map value_avg example_thirds)) = Some (940126422213591 / 562949953421312)"
  by (simp add: example_thirds_mean round2_def round_np_def example_evals)







section \<open>The claims about the statistics computation\<close>

text \<open>
  C1, as the claim states it, fails for the peak days.  For a series with a Monday point
  and a Friday point of equal value (and lower values on Tuesday and Wednesday) the
  computation lists Friday before Monday, whereas ranking ties by weekday index from
  Monday = 0 lists Monday first.
\<close>

theorem peak_days_tie_counterexample:
  "peak_days (the (calculate_statistics example_lib example_tie))
     = [u ''Friday'', u ''Monday'', u ''Tuesday''] \<and>
   top_buckets weekday_index 3 (groupby_mean example_lib day_name_of example_tie)
     = [u ''Monday'', u ''Friday'', u ''Tuesday'']"
proof -
  have g: "groupby_mean example_lib day_name_of example_tie
             = [(u ''Friday'', Some 5), (u ''Monday'', Some 5), (u ''Tuesday'', Some 2),
                (u ''Wednesday'', Some 1)]"
    by (simp add: groupby_mean_def group_mean_def example_tie_def day_name_of_def
          weekday_of_def day_names_def non_nan_def u_def example_lib_def seq_mean_def
          seq_sum_def fl_numeral fl_one)
  have ne: "example_tie \<noteq> []" by (simp add: example_tie_def)
  then obtain s where s: "calculate_statistics example_lib example_tie = Some s"
    using calculate_statistics_Some by blast
  have "peak_days s = [u ''Friday'', u ''Monday'', u ''Tuesday'']"
    unfolding summary_fields(8) [OF s] g by (simp add: nlargest_def)
  moreover have "top_buckets weekday_index 3
                   [(u ''Friday'', Some 5), (u ''Monday'', Some 5), (u ''Tuesday'', Some 2),
                    (u ''Wednesday'', Some 1)]
                   = [u ''Monday'', u ''Friday'', u ''Tuesday'']"
    by (simp add: top_buckets_def bucket_rank_def weekday_index_def day_names_def u_def)
  ultimately show ?thesis by (simp add: s g)
qed

text \<open>
  C1, amended.  For every non-empty trend series, points are bucketed by hour of day
  (0 to 23, the clock read as UTC) and by English weekday name, each bucket carrying the
  mean of the avg field of its points as the library computes it in double arithmetic.
  The peak hours are the top 3 hour buckets and the peak days the top 3 weekday buckets
  by that computed mean in descending order, buckets whose mean is NaN ranking last; ties
  between buckets whose computed means are equal are broken by ascending bucket key,
  which is the hour number for peak hours and the weekday name in alphabetical order for
  peak days.  The result does not depend on the order in which the buckets are listed.
  Peak hours are reported as \<open>HH:00\<close>.  This holds whatever the library's summation
  is.
\<close>

theorem peaks_top3_by_mean:
  assumes "ts \<noteq> []"
  shows "\<exists>s. calculate_statistics L ts = Some s \<and>
           peak_hours s = map hour_label (top_buckets (\<lambda>h. h) 3 (groupby_mean L hour_of ts)) \<and>
           peak_days s = top_buckets (\<lambda>name. name) 3 (groupby_mean L day_name_of ts) \<and>
           (\<forall>bs. mset bs = mset (groupby_mean L hour_of ts) \<longrightarrow>
                 top_buckets (\<lambda>h. h) 3 bs
                   = top_buckets (\<lambda>h. h) 3 (groupby_mean L hour_of ts)) \<and>
           (\<forall>bs. mset bs = mset (groupby_mean L day_name_of ts) \<longrightarrow>
                 top_buckets (\<lambda>name. name) 3 bs
                   = top_buckets (\<lambda>name. name) 3 (groupby_mean L day_name_of ts)) \<and>
           set (map fst (groupby_mean L hour_of ts)) = hour_of ` set ts \<and>
           distinct (map fst (groupby_mean L hour_of ts)) \<and>
           (\<forall>r \<in> set ts. 0 \<le> hour_of r \<and> hour_of r < 24) \<and>
           set (map fst (groupby_mean L day_name_of ts)) = day_name_of ` set ts \<and>
           distinct (map fst (groupby_mean L day_name_of ts)) \<and>
           (\<forall>r \<in> set ts. day_name_of r \<in> set day_names) \<and>
           (\<forall>b \<in> set (groupby_mean L hour_of ts).
                 snd b = group_mean L (map value_avg (filter (\<lambda>r. hour_of r = fst b) ts))) \<and>
           (\<forall>b \<in> set (groupby_mean L day_name_of ts).
                 snd b = group_mean L (map value_avg (filter (\<lambda>r. day_name_of r = fst b) ts)))"
proof -
  from assms obtain s where s: "calculate_statistics L ts = Some s"
    using calculate_statistics_Some by blast
  have ph: "peak_hours s = map hour_label (top_buckets (\<lambda>h. h) 3 (groupby_mean L hour_of ts))"
    unfolding summary_fields(7) [OF s] nlargest_top_buckets ..
  have pd: "peak_days s = top_buckets (\<lambda>name. name) 3 (groupby_mean L day_name_of ts)"
    unfolding summary_fields(8) [OF s] nlargest_top_buckets ..
  have bh: "\<forall>b \<in> set (groupby_mean L hour_of ts).
              snd b = group_mean L (map value_avg (filter (\<lambda>r. hour_of r = fst b) ts))"
    by (auto simp: groupby_mean_def)
  have bd: "\<forall>b \<in> set (groupby_mean L day_name_of ts).
              snd b = group_mean L (map value_avg (filter (\<lambda>r. day_name_of r = fst b) ts))"
    by (auto simp: groupby_mean_def)
  show ?thesis
    using s ph pd bh bd groupby_mean_set [of L hour_of ts] groupby_mean_set [of L day_name_of ts]
      groupby_mean_distinct [of L hour_of ts] groupby_mean_distinct [of L day_name_of ts]
      hour_of_range day_name_of_mem
      top_buckets_groupby_perm [of _ L hour_of ts 3]
      top_buckets_groupby_perm [of _ L day_name_of ts 3]
    by blast
qed

theorem peaks_top3_by_mean_witness:
  "example_hours \<noteq> [] \<and>
   peak_hours (the (calculate_statistics example_lib example_hours))
     = [u ''02:00'', u ''01:00'', u ''00:00''] \<and>
   peak_days (the (calculate_statistics example_lib example_hours)) = [u ''Thursday'']"
proof -
  have ne: "example_hours \<noteq> []" by (simp add: example_hours_def)
  have th: "map hour_label (top_buckets (\<lambda>h. h) 3 [(0::int, Some 10), (1, Some 20), (2, Some 30)])
              = [u ''02:00'', u ''01:00'', u ''00:00'']"
    by (simp add: top_buckets_def bucket_rank_def hour_label_def zfill_def str_int_def u_def)
  have td: "top_buckets (\<lambda>name. name) 3 [(u ''Thursday'', Some 20)] = [u ''Thursday'']"
    by (simp add: top_buckets_def)
  from peaks_top3_by_mean [OF ne, of example_lib] obtain s where
    "calculate_statistics example_lib example_hours = Some s"
    "peak_hours s = map hour_label
       (top_buckets (\<lambda>h. h) 3 (groupby_mean example_lib hour_of example_hours))"
    "peak_days s = top_buckets (\<lambda>name. name) 3
       (groupby_mean example_lib day_name_of example_hours)"
    by blast
  then show ?thesis
    using ne by (simp add: example_hours_hourly(1) example_hours_daily(1) th td)
qed

text \<open>
  C3, as the claim states it, fails: for the series 1, 2, 2 the mean is computed as the
  double nearest to \<open>5 / 3\<close> and the returned mean is the double nearest to \<open>1.67\<close>,
  its rounding to two decimals.
\<close>

theorem full_precision_counterexample:
  "series_mean example_lib (map value_avg example_thirds) = Some (7505999378950827 / 4503599627370496) \<and>
   avg_monthly (the (calculate_statistics example_lib example_thirds)) = Some (940126422213591 / 562949953421312) \<and>
   avg_monthly (the (calculate_statistics example_lib example_thirds))
     \<noteq> series_mean example_lib (map value_avg example_thirds)"
proof -
  have "example_thirds \<noteq> []" by (simp add: example_thirds_def)
  then obtain s where s: "calculate_statistics example_lib example_thirds = Some s"
    using calculate_statistics_Some by blast
  have "avg_monthly s = Some (940126422213591 / 562949953421312)"
    unfolding summary_fields(1) [OF s] by (rule example_thirds_avg)
  then show ?thesis by (simp add: s example_thirds_mean)
qed

text \<open>
  C3, amended.  For every non-empty series the statistics computation rounds each
  numeric field (mean, max, min, p95, p99, standard deviation) to two decimal places
  inside the engine: the field is \<open>round(x, 2)\<close> of the statistic as computed, and so
  the double nearest to some hundredth; for a series whose mean is not representable at
  two decimal places the returned mean is a two-decimal rounding of it and not the mean.
\<close>

theorem summary_rounded_to_two_decimals:
  assumes "ts \<noteq> []"
  shows "\<exists>s. calculate_statistics L ts = Some s \<and>
           avg_monthly s = round2 (series_mean L (map value_avg ts)) \<and>
           max_absolute s = round2 (series_max (map value_max ts)) \<and>
           min_absolute s = round2 (series_min (map value_min ts)) \<and>
           p95 s = round2 (series_quantile L (fl (95 / 100)) (map value_avg ts)) \<and>
           p99 s = round2 (series_quantile L (fl (99 / 100)) (map value_avg ts)) \<and>
           std_deviation s = round2 (series_std L (map value_avg ts)) \<and>
           two_decimals (avg_monthly s) \<and> two_decimals (max_absolute s) \<and>
           two_decimals (min_absolute s) \<and> two_decimals (p95 s) \<and> two_decimals (p99 s) \<and>
           two_decimals (std_deviation s)"
proof -
  from assms obtain s where s: "calculate_statistics L ts = Some s"
    using calculate_statistics_Some by blast
  show ?thesis
    using s summary_fields(1-6) [OF s] two_decimals_round2 by (intro exI [of _ s]) simp
qed

theorem summary_rounded_to_two_decimals_witness:
  "example_thirds \<noteq> [] \<and>
   series_mean example_lib (map value_avg example_thirds) = Some (7505999378950827 / 4503599627370496) \<and>
   avg_monthly (the (calculate_statistics example_lib example_thirds)) = Some (940126422213591 / 562949953421312) \<and>
   two_decimals (avg_monthly (the (calculate_statistics example_lib example_thirds)))"
proof -
  have ne: "example_thirds \<noteq> []" by (simp add: example_thirds_def)
  from summary_rounded_to_two_decimals [OF ne, of example_lib] obtain s where
    s: "calculate_statistics example_lib example_thirds = Some s"
    and a: "avg_monthly s = round2 (series_mean example_lib (map value_avg example_thirds))"
    and d: "two_decimals (avg_monthly s)"
    by blast
  have v: "avg_monthly s = Some (940126422213591 / 562949953421312)"
    unfolding a by (rule example_thirds_avg)
  have sel: "the (calculate_statistics example_lib example_thirds) = s" by (simp add: s)
  show ?thesis unfolding sel using ne example_thirds_mean v d by blast
qed







text \<open>
  C7.  On the empty series the computation returns the "no data" result (the empty
  dictionary) without evaluating any statistic, so nothing can raise and no field is NaN;
  the "no data" result is returned for the empty series only, so it differs from every
  populated summary.
\<close>

theorem calculate_statistics_empty:
  "calculate_statistics L [] = None \<and> (calculate_statistics L ts = None) = (ts = [])"
  by (simp add: calculate_statistics_def Let_def)

section \<open>Properties of the report aggregator\<close>

lemma set_first_seen: "set (first_seen xs) = set xs"
  by (induction xs) auto

lemma distinct_first_seen: "distinct (first_seen xs)"
  by (induction xs) auto

lemma first_seen_snoc:
  "first_seen (xs @ [y]) = (if y \<in> set xs then first_seen xs else first_seen xs @ [y])"
  by (induction xs) auto

lemma length_first_seen: "length (first_seen xs) = card (set xs)"
  using distinct_card [OF distinct_first_seen, of xs] by (simp add: set_first_seen)

lemma group_by_host_snoc: "group_by_host (ds @ [d]) = hosts_add (group_by_host ds) d"
  by (simp add: group_by_host_def)

lemma hosts_add_partition:
  "hosts_add (partition_by_host ds) d = partition_by_host (ds @ [d])"
proof (cases "host d \<in> set (map host ds)")
  case True
  then show ?thesis
    by (auto simp: hosts_add_def partition_by_host_def first_seen_snoc set_first_seen
          comp_def image_iff)
next
  case False
  then have "filter (\<lambda>x. host x = host d) ds = []"
    by (induction ds) auto
  with False show ?thesis
    by (auto simp: hosts_add_def partition_by_host_def first_seen_snoc set_first_seen
          comp_def image_iff)
qed

lemma group_by_host_partition: "group_by_host ds = partition_by_host ds"
proof (induction ds rule: rev_induct)
  case Nil
  show ?case by (simp add: group_by_host_def partition_by_host_def)
next
  case (snoc d ds)
  then show ?case by (simp add: group_by_host_snoc hosts_add_partition)
qed

lemma outline_append: "outline (xs @ ys) = outline xs @ outline ys"
  by (simp add: outline_def)

lemma outline_Nil: "outline [] = []"
  by (simp add: outline_def)

lemma outline_Cons: "outline (x # xs) = marks_of x @ outline xs"
  by (simp add: outline_def)

lemma outline_concat: "outline (concat xss) = concat (map outline xss)"
  by (induction xss) (simp_all add: outline_Nil outline_append)

lemma outline_operative: "outline (create_operative_block g) = []"
  by (simp add: create_operative_block_def outline_def marks_of_def Let_def)

lemma outline_glossary: "outline create_severity_glossary = []"
  by (simp add: create_severity_glossary_def outline_def marks_of_def)

lemma outline_dimensions: "outline (create_dimensions_table g) = []"
  by (simp add: create_dimensions_table_def outline_def marks_of_def)

lemma outline_uptime: "outline (create_uptime_section g) = []"
  by (simp add: create_uptime_section_def outline_def marks_of_def Let_def)

lemma title_text_item_title: "title_text (create_item_title e n) = Some (upper e n)"
  by (simp add: title_text_def create_item_title_def Let_def)

lemma outline_item: "outline (item_flowables e d) = [ItemMark (upper e (item d))]"
  by (simp add: item_flowables_def outline_def marks_of_def Let_def title_text_item_title
        create_chart_def split: option.splits)

lemma outline_items:
  "outline (concat (map (item_flowables e) ds)) = map (\<lambda>d. ItemMark (upper e (item d))) ds"
  by (induction ds) (simp_all add: outline_Nil outline_append outline_item)

lemma outline_host:
  "outline (host_flowables e g i h ds) =
     (if i = 0 then [] else [Break]) @ [HostMark h] @ map (\<lambda>d. ItemMark (upper e (item d))) ds"
  by (simp add: host_flowables_def Let_def outline_append outline_Cons outline_Nil
        outline_operative outline_glossary outline_dimensions outline_uptime outline_items
        marks_of_def create_divider_def)

lemma outline_build_story: "outline (build_story e g hosts) = spec_outline e hosts"
  by (simp add: build_story_def spec_outline_def outline_concat comp_def split_def outline_host)

lemma count_PageBreak_outline: "count_list story PageBreak = count_list (outline story) Break"
proof (induction story)
  case Nil
  show ?case by (simp add: outline_Nil)
next
  case (Cons f fs)
  have "count_list (marks_of f) Break = (if f = PageBreak then 1 else 0)"
    by (cases f) (auto simp: marks_of_def split: style.splits list.splits option.splits)
  with Cons show ?case by (simp add: outline_Cons)
qed

lemma count_Break_items: "count_list (map (\<lambda>d. ItemMark (upper e (item d))) ds) Break = 0"
  by (induction ds) simp_all

lemma count_Break_spec_from:
  "count_list (concat (map (\<lambda>(i, (h, ds)).
                    (if i = 0 then [] else [Break]) @ [HostMark h]
                    @ map (\<lambda>d. ItemMark (upper e (item d))) ds)
               (enumerate n groups))) Break
   = (if n = 0 then length groups - 1 else length groups)"
proof (induction groups arbitrary: n)
  case Nil
  show ?case by simp
next
  case (Cons x xs)
  obtain h ds where x: "x = (h, ds)" by (cases x)
  show ?case
    using Cons [of "Suc n"] by (simp add: x count_Break_items)
qed

lemma count_Break_spec: "count_list (spec_outline e groups) Break = length groups - 1"
  using count_Break_spec_from [of e 0 groups] by (simp add: spec_outline_def)

lemma length_partition: "length (partition_by_host ds) = card (set (map host ds))"
  by (simp add: partition_by_host_def length_first_seen del: set_map)

text \<open>
  C8.  Rendering when no entry has been added returns the empty path, the failure marker
  of \<open>generate_report\<close>, writes no file and builds no story; the generator is left as
  it was.
\<close>

theorem generate_report_empty:
  "returned_path (generate_report e (g\<lparr>items_data := []\<rparr>) name) = [] \<and>
   files_written (generate_report e (g\<lparr>items_data := []\<rparr>) name) = [] \<and>
   story_built (generate_report e (g\<lparr>items_data := []\<rparr>) name) = [] \<and>
   generator_after (generate_report e (g\<lparr>items_data := []\<rparr>) name) = g\<lparr>items_data := []\<rparr> \<and>
   returned_path (generate_report e (init_generator out_dir) name) = [] \<and>
   files_written (generate_report e (init_generator out_dir) name) = []"
  by (simp add: generate_report_def init_generator_def)

text \<open>
  C4, as the claim states it, fails: after one entry has been added and the report has
  been rendered successfully (a path is returned and the file is written) the list of
  accumulated entries still holds the entry.
\<close>

theorem render_clears_items_counterexample:
  "returned_path (generate_report example_env
       (add_item_data (init_generator (u ''out'')) (u ''db1'') (u ''CPU'') example_hours
          (calculate_statistics example_lib example_hours) None)
       (u ''informe_ejecutivo'')) \<noteq> [] \<and>
   files_written (generate_report example_env
       (add_item_data (init_generator (u ''out'')) (u ''db1'') (u ''CPU'') example_hours
          (calculate_statistics example_lib example_hours) None)
       (u ''informe_ejecutivo'')) \<noteq> [] \<and>
   items_data (generator_after (generate_report example_env
       (add_item_data (init_generator (u ''out'')) (u ''db1'') (u ''CPU'') example_hours
          (calculate_statistics example_lib example_hours) None)
       (u ''informe_ejecutivo''))) \<noteq> []"
  by (simp add: generate_report_def add_item_data_def init_generator_def example_env_def
        Let_def u_def)

text \<open>
  C4, amended.  Each add appends exactly one entry to the accumulated list and changes no
  other attribute of the generator; rendering, successful or not, leaves the list as it
  was; only \<open>clear_data\<close> empties it.
\<close>

theorem items_data_append_only:
  "items_data (add_item_data g h i trs sts c) =
     items_data g @ [\<lparr> host = h, item = i, trends = trs, stats = sts, conclusion = c \<rparr>] \<and>
   output_dir (add_item_data g h i trs sts c) = output_dir g \<and>
   report_config (add_item_data g h i trs sts c) = report_config g \<and>
   report_defaults (add_item_data g h i trs sts c) = report_defaults g \<and>
   host_configs (add_item_data g h i trs sts c) = host_configs g \<and>
   current_host (add_item_data g h i trs sts c) = current_host g \<and>
   items_data (generator_after (generate_report e g name)) = items_data g \<and>
   items_data (clear_data g) = []"
  by (simp add: add_item_data_def generate_report_def clear_data_def Let_def)

text \<open>
  C9.  For a non-empty list of added entries, rendering groups the entries by host name
  in first-seen host order with each host's entries in the order added; the story shows
  the host sections in that order, every section except the first preceded by a page
  break, and within a section the items in the order added; the number of page breaks
  is the number of distinct host names minus one.
\<close>

theorem report_grouping_and_page_breaks:
  assumes "ds \<noteq> []"
  shows "group_by_host ds = partition_by_host ds \<and>
         outline (story_built (generate_report e (g\<lparr>items_data := ds\<rparr>) name))
           = spec_outline e (partition_by_host ds) \<and>
         int (count_list (story_built (generate_report e (g\<lparr>items_data := ds\<rparr>) name)) PageBreak)
           = int (card (set (map host ds))) - 1"
proof -
  have st: "story_built (generate_report e (g\<lparr>items_data := ds\<rparr>) name)
              = build_story e (g\<lparr>items_data := ds\<rparr>) (partition_by_host ds)"
    using assms by (simp add: generate_report_def Let_def group_by_host_partition)
  have "card (set (map host ds)) > 0" using assms by (simp add: card_gt_0_iff)
  then show ?thesis
    by (simp add: st group_by_host_partition outline_build_story count_PageBreak_outline
          count_Break_spec length_partition of_nat_diff del: set_map)
qed


theorem report_grouping_and_page_breaks_witness:
  "example_entries \<noteq> [] \<and>
   group_by_host example_entries =
     [(u ''db1'', [example_entry (u ''db1'') (u ''CPU''), example_entry (u ''db1'') (u ''RAM'')]),
      (u ''web1'', [example_entry (u ''web1'') (u ''CPU'')])] \<and>
   outline (story_built (generate_report example_env
              (init_generator (u ''out'')\<lparr>items_data := example_entries\<rparr>) (u ''informe'')))
     = [HostMark (u ''db1''), ItemMark (u ''CPU''), ItemMark (u ''RAM''), Break,
        HostMark (u ''web1''), ItemMark (u ''CPU'')] \<and>
   int (count_list (story_built (generate_report example_env
              (init_generator (u ''out'')\<lparr>items_data := example_entries\<rparr>) (u ''informe'')))
          PageBreak) = 1"
proof -
  have ne: "example_entries \<noteq> []" by (simp add: example_entries_def)
  have p: "partition_by_host example_entries =
     [(u ''db1'', [example_entry (u ''db1'') (u ''CPU''), example_entry (u ''db1'') (u ''RAM'')]),
      (u ''web1'', [example_entry (u ''web1'') (u ''CPU'')])]"
    by (simp add: partition_by_host_def example_entries_def example_entry_def u_def)
  have o: "spec_outline example_env
     [(u ''db1'', [example_entry (u ''db1'') (u ''CPU''), example_entry (u ''db1'') (u ''RAM'')]),
      (u ''web1'', [example_entry (u ''web1'') (u ''CPU'')])]
     = [HostMark (u ''db1''), ItemMark (u ''CPU''), ItemMark (u ''RAM''), Break,
        HostMark (u ''web1''), ItemMark (u ''CPU'')]"
    by (simp add: spec_outline_def example_env_def example_entry_def)
  have c: "int (card (set (map host example_entries))) - 1 = 1"
    by (simp add: example_entries_def example_entry_def u_def card_insert_if)
  from report_grouping_and_page_breaks [OF ne, of example_env "init_generator (u ''out'')" "u ''informe''"]
  show ?thesis using ne p o c by simp
qed

end
